theory Spec2Isabelle
  imports Main "HOL-Library.Word"
begin

unbundle bit_operations_syntax

section \<open>IPVS TCP protocol module (net/netfilter/ipvs/ip\_vs\_proto\_tcp.c)\<close>

text \<open>
  A shallow embedding of the TCP load-balancing module. Header fields of type
  \<open>__be16\<close> and \<open>__be32\<close> are kept as the code sees them on the x86-64
  target: as the raw machine word, with \<open>ntohl\<close>, \<open>htonl\<close>, \<open>ntohs\<close> and
  \<open>htons\<close> written out as byte swaps wherever the source converts.
\<close>

subsection \<open>Byte order\<close>

type_synonym u8 = "8 word"
type_synonym u16 = "16 word"
type_synonym u32 = "32 word"
type_synonym be16 = "16 word"
type_synonym be32 = "32 word"

definition swab16 :: "u16 \<Rightarrow> u16" where
  "swab16 x = push_bit 8 (x AND 0x00ff) OR drop_bit 8 (x AND 0xff00)"

definition swab32 :: "u32 \<Rightarrow> u32" where
  "swab32 x = push_bit 24 (x AND 0x000000ff) OR push_bit 8 (x AND 0x0000ff00)
              OR drop_bit 8 (x AND 0x00ff0000) OR drop_bit 24 (x AND 0xff000000)"

definition ntohs :: "be16 \<Rightarrow> u16" where "ntohs x = swab16 x"
definition htons :: "u16 \<Rightarrow> be16" where "htons x = swab16 x"
definition ntohl :: "be32 \<Rightarrow> u32" where "ntohl x = swab32 x"
definition htonl :: "u32 \<Rightarrow> be32" where "htonl x = swab32 x"

text \<open>Sequence-space comparison of \<open>net/tcp.h\<close>: \<open>(__s32)(seq1 - seq2) < 0\<close>.\<close>

definition before :: "u32 \<Rightarrow> u32 \<Rightarrow> bool" where
  "before seq1 seq2 = (sint (seq1 - seq2) < 0)"

definition after :: "u32 \<Rightarrow> u32 \<Rightarrow> bool" where
  "after seq2 seq1 = before seq1 seq2"

subsection \<open>Headers, buffers and flows\<close>

record tcphdr =
  source :: be16
  dest :: be16
  seq :: be32
  ack_seq :: be32
  doff :: "4 word"
  res1 :: "4 word"
  cwr :: bool
  ece :: bool
  urg :: bool
  ack :: bool
  psh :: bool
  rst :: bool
  syn :: bool
  fin :: bool
  window :: be16
  check :: u16
  urg_ptr :: be16

text \<open>A header after \<open>memset(th, 0, sizeof(struct tcphdr))\<close>.\<close>

definition tcphdr_zero :: tcphdr where
  "tcphdr_zero = \<lparr>source = 0, dest = 0, seq = 0, ack_seq = 0, doff = 0, res1 = 0,
     cwr = False, ece = False, urg = False, ack = False, psh = False, rst = False,
     syn = False, fin = False, window = 0, check = 0, urg_ptr = 0\<rparr>"

datatype ip_vs_tcp_state =
    IP_VS_TCP_S_NONE
  | IP_VS_TCP_S_ESTABLISHED
  | IP_VS_TCP_S_SYN_SENT
  | IP_VS_TCP_S_SYN_RECV
  | IP_VS_TCP_S_FIN_WAIT
  | IP_VS_TCP_S_TIME_WAIT
  | IP_VS_TCP_S_CLOSE
  | IP_VS_TCP_S_CLOSE_WAIT
  | IP_VS_TCP_S_LAST_ACK
  | IP_VS_TCP_S_LISTEN
  | IP_VS_TCP_S_SYNACK

text \<open>The numeric value of each enumerator, used to index the state arrays.\<close>

fun state_num :: "ip_vs_tcp_state \<Rightarrow> nat" where
  "state_num IP_VS_TCP_S_NONE = 0"
| "state_num IP_VS_TCP_S_ESTABLISHED = 1"
| "state_num IP_VS_TCP_S_SYN_SENT = 2"
| "state_num IP_VS_TCP_S_SYN_RECV = 3"
| "state_num IP_VS_TCP_S_FIN_WAIT = 4"
| "state_num IP_VS_TCP_S_TIME_WAIT = 5"
| "state_num IP_VS_TCP_S_CLOSE = 6"
| "state_num IP_VS_TCP_S_CLOSE_WAIT = 7"
| "state_num IP_VS_TCP_S_LAST_ACK = 8"
| "state_num IP_VS_TCP_S_LISTEN = 9"
| "state_num IP_VS_TCP_S_SYNACK = 10"

datatype ip_vs_dir = IP_VS_DIR_INPUT | IP_VS_DIR_OUTPUT | IP_VS_DIR_INPUT_ONLY

datatype af_t = AF_INET | AF_INET6

text \<open>
  Modelled from the spec: the \<open>IP_VS_CONN_F_*\<close> masks live in \<open>net/ip_vs.h\<close>, which
  is not part of the file. The flow's \<open>flags\<close> word has two parts. Its low three bits,
  under \<open>IP_VS_CONN_F_FWD_MASK\<close>, hold the forwarding method, which
  \<open>IP_VS_FWD_METHOD(cp)\<close> reads: \<open>tcp_app_conn_bind\<close> compares it with
  \<open>IP_VS_CONN_F_MASQ\<close>, so the \<open>IP_VS_CONN_F_MASQ\<close> and \<open>IP_VS_CONN_F_FULLNAT\<close> of the
  file are values of that field, 0 and 5 in the header, not bits of their own. The
  field is \<open>fwd_method\<close> below, and a test \<open>cp->flags & M\<close> with \<open>M\<close> inside the mask is
  \<open>fwd_method cp AND M \<noteq> 0\<close>. The bits above the mask are the single-bit flags of
  section 3 of the specification; they are the set \<open>flags\<close>: testing such a mask is
  membership, \<open>|=\<close> inserts, \<open>&= ~\<close> removes.
\<close>

definition IP_VS_CONN_F_MASQ :: "3 word" where "IP_VS_CONN_F_MASQ = 0"
definition IP_VS_CONN_F_FULLNAT :: "3 word" where "IP_VS_CONN_F_FULLNAT = 5"

datatype conn_flag =
    IP_VS_CONN_F_INACTIVE
  | IP_VS_CONN_F_NOOUTPUT
  | IP_VS_CONN_F_CIP_INSERTED

text \<open>\<open>union nf_inet_addr\<close>: four 32-bit words; \<open>.ip\<close> is the first.\<close>

record nf_inet_addr =
  all0 :: be32
  all1 :: be32
  all2 :: be32
  all3 :: be32

definition ip :: "nf_inet_addr \<Rightarrow> be32" where
  "ip a = all0 a"

definition ip6 :: "nf_inet_addr \<Rightarrow> be32 list" where
  "ip6 a = [all0 a, all1 a, all2 a, all3 a]"

record ip_vs_seq =
  init_seq :: u32
  delta :: u32
  fdata_seq :: u32

record ip_vs_dest =
  activeconns :: int
  inactconns :: int

record ip_vs_app =
  app_name :: string
  port :: be16

text \<open>
  \<open>struct iphdr\<close> and \<open>struct ipv6hdr\<close>. A buffer carries both views of its
  network header; each path of the code reads the view of its address family.
  \<open>ip_options\<close> are the bytes between the fixed IPv4 header and the transport
  header (\<open>ihl * 4 - 20\<close> of them).
\<close>

record iphdr =
  ip_ihl :: "4 word"
  ip_version :: "4 word"
  ip_tos :: u8
  ip_tot_len :: be16
  ip_id :: be16
  ip_frag_off :: be16
  ip_ttl :: u8
  ip_protocol :: u8
  ip_check :: u16
  ip_saddr :: be32
  ip_daddr :: be32

record ipv6hdr =
  ip6_priority :: "4 word"
  ip6_version :: "4 word"
  ip6_flow_lbl :: "u8 list"
  ip6_payload_len :: be16
  ip6_nexthdr :: u8
  ip6_hop_limit :: u8
  ip6_saddr :: nf_inet_addr
  ip6_daddr :: nf_inet_addr

datatype ip_summed_t =
  CHECKSUM_NONE | CHECKSUM_UNNECESSARY | CHECKSUM_COMPLETE | CHECKSUM_PARTIAL

text \<open>
  \<open>struct sk_buff\<close>, linear. \<open>th\<close> is the TCP header found at the transport
  offset and \<open>data\<close> the memory that follows its 20 fixed bytes (options, then
  payload, then whatever lies behind the tail), addressed from \<open>(tcph + 1)\<close>.
  \<open>csum\<close> is a \<open>__wsum\<close>: an unfolded ones-complement sum.
\<close>

record sk_buff =
  len :: u32
  mark :: u32
  ip_summed :: ip_summed_t
  csum :: nat
  dst_mtu :: u32
  iph :: iphdr
  ip_options :: "u8 list"
  ipv6h :: ipv6hdr
  th :: tcphdr
  data :: "nat \<Rightarrow> u8"

record ip_vs_conn =
  af :: af_t
  protocol :: u16
  caddr :: nf_inet_addr
  vaddr :: nf_inet_addr
  laddr :: nf_inet_addr
  daddr :: nf_inet_addr
  cport :: be16
  vport :: be16
  lport :: be16
  dport :: be16
  fwd_method :: "3 word"
  flags :: "conn_flag set"
  state :: ip_vs_tcp_state
  old_state :: ip_vs_tcp_state
  timeout :: int
  cp_dest :: "ip_vs_dest option"
  app :: "ip_vs_app option"
  fnat_seq :: ip_vs_seq
  syn_proxy_seq :: ip_vs_seq
  rs_end_seq :: be32
  rs_ack_seq :: be32
  ack_skb :: "sk_buff list"

record ip_vs_protocol =
  timeout_table :: "ip_vs_tcp_state \<Rightarrow> int"
  csum_check :: "(af_t \<Rightarrow> sk_buff \<Rightarrow> bool \<times> sk_buff) option"

subsection \<open>The state machine\<close>

definition TCP_DIR_INPUT :: nat where "TCP_DIR_INPUT = 0"
definition TCP_DIR_OUTPUT :: nat where "TCP_DIR_OUTPUT = 4"
definition TCP_DIR_INPUT_ONLY :: nat where "TCP_DIR_INPUT_ONLY = 8"

fun tcp_state_off :: "ip_vs_dir \<Rightarrow> nat" where
  "tcp_state_off IP_VS_DIR_INPUT = TCP_DIR_INPUT"
| "tcp_state_off IP_VS_DIR_OUTPUT = TCP_DIR_OUTPUT"
| "tcp_state_off IP_VS_DIR_INPUT_ONLY = TCP_DIR_INPUT_ONLY"

abbreviation "sNO \<equiv> IP_VS_TCP_S_NONE"
abbreviation "sES \<equiv> IP_VS_TCP_S_ESTABLISHED"
abbreviation "sSS \<equiv> IP_VS_TCP_S_SYN_SENT"
abbreviation "sSR \<equiv> IP_VS_TCP_S_SYN_RECV"
abbreviation "sFW \<equiv> IP_VS_TCP_S_FIN_WAIT"
abbreviation "sTW \<equiv> IP_VS_TCP_S_TIME_WAIT"
abbreviation "sCL \<equiv> IP_VS_TCP_S_CLOSE"
abbreviation "sCW \<equiv> IP_VS_TCP_S_CLOSE_WAIT"
abbreviation "sLA \<equiv> IP_VS_TCP_S_LAST_ACK"
abbreviation "sLI \<equiv> IP_VS_TCP_S_LISTEN"
abbreviation "sSA \<equiv> IP_VS_TCP_S_SYNACK"

text \<open>\<open>struct tcp_states_t\<close>: one row, \<open>next_state[IP_VS_TCP_S_LAST]\<close>.\<close>

type_synonym tcp_states_t = "ip_vs_tcp_state list"

definition tcp_states :: "tcp_states_t list" where
  "tcp_states =
   [ \<comment> \<open>INPUT\<close>
     [sSR, sES, sES, sSR, sSR, sSR, sSR, sSR, sSR, sSR, sSR],
     [sCL, sCW, sSS, sTW, sTW, sTW, sCL, sCW, sLA, sLI, sTW],
     [sCL, sES, sSS, sES, sFW, sTW, sCL, sCW, sCL, sLI, sES],
     [sCL, sCL, sCL, sSR, sCL, sCL, sCL, sCL, sLA, sLI, sSR],
     \<comment> \<open>OUTPUT\<close>
     [sSS, sES, sSS, sSR, sSS, sSS, sSS, sSS, sSS, sLI, sSR],
     [sTW, sFW, sSS, sTW, sFW, sTW, sCL, sTW, sLA, sLI, sTW],
     [sES, sES, sSS, sES, sFW, sTW, sCL, sCW, sLA, sES, sES],
     [sCL, sCL, sSS, sCL, sCL, sTW, sCL, sCL, sCL, sCL, sCL],
     \<comment> \<open>INPUT-ONLY\<close>
     [sSR, sES, sES, sSR, sSR, sSR, sSR, sSR, sSR, sSR, sSR],
     [sCL, sFW, sSS, sTW, sFW, sTW, sCL, sCW, sLA, sLI, sTW],
     [sCL, sES, sSS, sES, sFW, sTW, sCL, sCW, sCL, sLI, sES],
     [sCL, sCL, sCL, sSR, sCL, sCL, sCL, sCL, sLA, sLI, sCL] ]"

definition tcp_states_dos :: "tcp_states_t list" where
  "tcp_states_dos =
   [ \<comment> \<open>INPUT\<close>
     [sSR, sES, sES, sSR, sSR, sSR, sSR, sSR, sSR, sSR, sSA],
     [sCL, sCW, sSS, sTW, sTW, sTW, sCL, sCW, sLA, sLI, sSA],
     [sCL, sES, sSS, sSR, sFW, sTW, sCL, sCW, sCL, sLI, sSA],
     [sCL, sCL, sCL, sSR, sCL, sCL, sCL, sCL, sLA, sLI, sCL],
     \<comment> \<open>OUTPUT\<close>
     [sSS, sES, sSS, sSA, sSS, sSS, sSS, sSS, sSS, sLI, sSA],
     [sTW, sFW, sSS, sTW, sFW, sTW, sCL, sTW, sLA, sLI, sTW],
     [sES, sES, sSS, sES, sFW, sTW, sCL, sCW, sLA, sES, sES],
     [sCL, sCL, sSS, sCL, sCL, sTW, sCL, sCL, sCL, sCL, sCL],
     \<comment> \<open>INPUT-ONLY\<close>
     [sSA, sES, sES, sSR, sSA, sSA, sSA, sSA, sSA, sSA, sSA],
     [sCL, sFW, sSS, sTW, sFW, sTW, sCL, sCW, sLA, sLI, sTW],
     [sCL, sES, sSS, sES, sFW, sTW, sCL, sCW, sCL, sLI, sES],
     [sCL, sCL, sCL, sSR, sCL, sCL, sCL, sCL, sLA, sLI, sCL] ]"

text \<open>\<open>tcp_timeout_change\<close>: bit 0 of \<open>flags\<close> selects the table the module-wide
  pointer \<open>tcp_state_table\<close> refers to.\<close>

definition tcp_timeout_change :: "int \<Rightarrow> tcp_states_t list" where
  "tcp_timeout_change flgs = (if flgs mod 2 \<noteq> 0 then tcp_states_dos else tcp_states)"

definition tcp_state_idx :: "tcphdr \<Rightarrow> int" where
  "tcp_state_idx tcph =
     (if rst tcph then 3
      else if syn tcph then 0
      else if fin tcph then 1
      else if ack tcph then 2
      else -1)"

text \<open>
  \<open>set_tcp_state\<close>. \<open>tcp_state_table\<close> is the table the module-wide pointer
  selects at the time of the call.
\<close>

definition set_tcp_state ::
  "tcp_states_t list \<Rightarrow> ip_vs_protocol \<Rightarrow> ip_vs_conn \<Rightarrow> ip_vs_dir \<Rightarrow> tcphdr \<Rightarrow> ip_vs_conn" where
  "set_tcp_state tcp_state_table pp cp direction tcph =
     (let state_off0 = tcp_state_off direction;
          cp1 = (if IP_VS_CONN_F_NOOUTPUT \<in> flags cp \<and> state_off0 = TCP_DIR_OUTPUT
                 then cp\<lparr>flags := flags cp - {IP_VS_CONN_F_NOOUTPUT}\<rparr> else cp);
          state_off = (if IP_VS_CONN_F_NOOUTPUT \<in> flags cp \<and> state_off0 \<noteq> TCP_DIR_OUTPUT
                       then TCP_DIR_INPUT_ONLY else state_off0);
          state_idx = tcp_state_idx tcph;
          new_state = (if state_idx < 0 then IP_VS_TCP_S_CLOSE
                       else tcp_state_table ! (state_off + nat state_idx) ! state_num (state cp1));
          cp2 = (if new_state \<noteq> state cp1 then
                   (case cp_dest cp1 of
                      None \<Rightarrow> cp1
                    | Some d \<Rightarrow>
                        if IP_VS_CONN_F_INACTIVE \<notin> flags cp1 \<and> new_state \<noteq> IP_VS_TCP_S_ESTABLISHED
                        then cp1\<lparr>cp_dest := Some (d\<lparr>activeconns := activeconns d - 1,
                                                     inactconns := inactconns d + 1\<rparr>),
                                 flags := insert IP_VS_CONN_F_INACTIVE (flags cp1)\<rparr>
                        else if IP_VS_CONN_F_INACTIVE \<in> flags cp1 \<and> new_state = IP_VS_TCP_S_ESTABLISHED
                        then cp1\<lparr>cp_dest := Some (d\<lparr>activeconns := activeconns d + 1,
                                                     inactconns := inactconns d - 1\<rparr>),
                                 flags := flags cp1 - {IP_VS_CONN_F_INACTIVE}\<rparr>
                        else cp1)
                 else cp1)
      in cp2\<lparr>old_state := state cp2, state := new_state, timeout := timeout_table pp new_state\<rparr>)"

text \<open>\<open>skb_header_pointer\<close> for a TCP header at offset \<open>off\<close>: \<open>NULL\<close> when the
  buffer is shorter than \<open>off + sizeof(struct tcphdr)\<close>.\<close>

definition skb_header_pointer_tcp :: "sk_buff \<Rightarrow> nat \<Rightarrow> tcphdr option" where
  "skb_header_pointer_tcp skb off = (if unat (len skb) < off + 20 then None else Some (th skb))"

definition ip_hdrlen :: "sk_buff \<Rightarrow> nat" where
  "ip_hdrlen skb = unat (ip_ihl (iph skb)) * 4"

text \<open>\<open>tcp_state_transition\<close>: the return value and the flow after the call.\<close>

definition tcp_state_transition ::
  "tcp_states_t list \<Rightarrow> ip_vs_conn \<Rightarrow> ip_vs_dir \<Rightarrow> sk_buff \<Rightarrow> ip_vs_protocol \<Rightarrow> int \<times> ip_vs_conn" where
  "tcp_state_transition tcp_state_table cp direction skb pp =
     (let ihl = (if af cp = AF_INET then ip_hdrlen skb else 40)
      in case skb_header_pointer_tcp skb ihl of
           None \<Rightarrow> (0, cp)
         | Some tcph \<Rightarrow> (1, set_tcp_state tcp_state_table pp cp direction tcph))"

subsection \<open>Packet memory\<close>

text \<open>
  Bytes are addressed by their offset from a base pointer; multi-byte loads and stores
  are those of the little-endian target.
\<close>

type_synonym mem = "nat \<Rightarrow> u8"

definition load16 :: "mem \<Rightarrow> nat \<Rightarrow> u16" where
  "load16 m p = ucast (m p) OR push_bit 8 (ucast (m (p + 1)))"

definition store16 :: "mem \<Rightarrow> nat \<Rightarrow> u16 \<Rightarrow> mem" where
  "store16 m p v = m(p := ucast v, p + 1 := ucast (drop_bit 8 v))"

definition load32 :: "mem \<Rightarrow> nat \<Rightarrow> u32" where
  "load32 m p = ucast (m p) OR push_bit 8 (ucast (m (p + 1)))
                OR push_bit 16 (ucast (m (p + 2))) OR push_bit 24 (ucast (m (p + 3)))"

definition store32 :: "mem \<Rightarrow> nat \<Rightarrow> u32 \<Rightarrow> mem" where
  "store32 m p v = m(p := ucast v, p + 1 := ucast (drop_bit 8 v),
                     p + 2 := ucast (drop_bit 16 v), p + 3 := ucast (drop_bit 24 v))"

text \<open>A region given by its first bytes, zero behind them.\<close>

definition mem_of :: "u8 list \<Rightarrow> mem" where
  "mem_of bs = (\<lambda>i. if i < length bs then bs ! i else 0)"

subsection \<open>Configuration, counters and the surrounding framework\<close>

text \<open>The sysctl integers the module reads.\<close>

record sysctl =
  sysctl_ip_vs_tcp_drop_entry :: int
  sysctl_ip_vs_mss_adjust_entry :: int
  sysctl_ip_vs_timestamp_remove_entry :: int
  sysctl_ip_vs_toa_entry :: int
  sysctl_ip_vs_conn_expire_tcp_rst :: int
  sysctl_ip_vs_conn_reused_entry :: int

text \<open>The extended statistics \<open>ip_vs_esmib\<close> the module increments.\<close>

datatype estat =
    DEFENCE_TCP_DROP
  | FULLNAT_ADD_TOA_OK
  | FULLNAT_ADD_TOA_FAIL_LEN
  | FULLNAT_ADD_TOA_FAIL_MEM
  | FULLNAT_ADD_TOA_FAIL_PROTO
  | FULLNAT_CONN_REUSED
  | FULLNAT_CONN_REUSED_CLOSE
  | FULLNAT_CONN_REUSED_TIMEWAIT
  | FULLNAT_CONN_REUSED_FINWAIT
  | FULLNAT_CONN_REUSED_CLOSEWAIT
  | FULLNAT_CONN_REUSED_LASTACK
  | FULLNAT_CONN_REUSED_ESTAB

type_synonym ip_vs_estats = "estat \<Rightarrow> nat"

definition IP_VS_INC_ESTATS :: "ip_vs_estats \<Rightarrow> estat \<Rightarrow> ip_vs_estats" where
  "IP_VS_INC_ESTATS mib x = mib(x := mib x + 1)"

record ip_vs_service =
  svc_af :: af_t
  svc_protocol :: u16
  svc_addr :: nf_inet_addr
  svc_port :: be16
  svc_fwmark :: u32

text \<open>\<open>struct ip_vs_iphdr\<close> and \<open>ip_vs_fill_iphdr\<close> of \<open>net/ip_vs.h\<close>.\<close>

record ip_vs_iphdr =
  iphdr_len :: nat
  iphdr_protocol :: u16
  iphdr_saddr :: nf_inet_addr
  iphdr_daddr :: nf_inet_addr

definition ip_vs_fill_iphdr :: "af_t \<Rightarrow> sk_buff \<Rightarrow> ip_vs_iphdr" where
  "ip_vs_fill_iphdr family skb =
     (if family = AF_INET6 then
        \<lparr>iphdr_len = 40, iphdr_protocol = ucast (ip6_nexthdr (ipv6h skb)),
         iphdr_saddr = ip6_saddr (ipv6h skb), iphdr_daddr = ip6_daddr (ipv6h skb)\<rparr>
      else
        \<lparr>iphdr_len = unat (ip_ihl (iph skb)) * 4, iphdr_protocol = ucast (ip_protocol (iph skb)),
         iphdr_saddr = \<lparr>all0 = ip_saddr (iph skb), all1 = 0, all2 = 0, all3 = 0\<rparr>,
         iphdr_daddr = \<lparr>all0 = ip_daddr (iph skb), all1 = 0, all2 = 0, all3 = 0\<rparr>\<rparr>)"

text \<open>
  Modelled from the spec: the collaborators of section 6 of the specification, which
  live outside the file. \<open>ip_vs_synproxy_ack_rcv\<close> either claims the packet
  (it returned 0: the verdict and the flow it left behind) or declines (\<open>None\<close>: it
  returned non-zero and touched nothing). \<open>ip_vs_todrop\<close> is the answer of
  admission control at the time of the call. The secure sequence generators are keyed
  by the four-tuple. The SYN-proxy egress hook either reports an ACK storm (\<open>None\<close>:
  it returned 0) or hands back the header's \<open>seq\<close> as it leaves it (the source: "adjust
  tcp sequence for SYNPROXY"); the ingress hook hands back \<open>ack_seq\<close> and the option
  memory as it leaves them (section 4.3: it "may further adjust ack\_seq and SACK
  edges"). A helper callback rejects the packet (\<open>None\<close>) or hands back the flow and
  the buffer as it leaves them. \<open>skb_make_writable\<close> tells whether the buffer could be
  made writable up to the given length.
\<close>

record ip_vs_framework =
  ip_vs_synproxy_ack_rcv :: "af_t \<Rightarrow> sk_buff \<Rightarrow> tcphdr \<Rightarrow> ip_vs_iphdr \<Rightarrow> (int \<times> ip_vs_conn option) option"
  ip_vs_service_get :: "af_t \<Rightarrow> u32 \<Rightarrow> u16 \<Rightarrow> nf_inet_addr \<Rightarrow> be16 \<Rightarrow> ip_vs_service option"
  ip_vs_lookup_vip :: "af_t \<Rightarrow> u16 \<Rightarrow> nf_inet_addr \<Rightarrow> ip_vs_service option"
  ip_vs_todrop :: bool
  ip_vs_schedule :: "ip_vs_service \<Rightarrow> sk_buff \<Rightarrow> ip_vs_conn option"
  ip_vs_leave :: "ip_vs_service \<Rightarrow> sk_buff \<Rightarrow> int"
  secure_tcp_sequence_number :: "be32 \<Rightarrow> be32 \<Rightarrow> be16 \<Rightarrow> be16 \<Rightarrow> u32"
  secure_tcpv6_sequence_number :: "be32 list \<Rightarrow> be32 list \<Rightarrow> be16 \<Rightarrow> be16 \<Rightarrow> u32"
  ip_vs_synproxy_snat :: "tcphdr \<Rightarrow> ip_vs_conn \<Rightarrow> be32 option"
  ip_vs_synproxy_dnat :: "tcphdr \<Rightarrow> mem \<Rightarrow> ip_vs_seq \<Rightarrow> be32 \<times> mem"
  ip_vs_app_pkt_in :: "ip_vs_conn \<Rightarrow> sk_buff \<Rightarrow> (ip_vs_conn \<times> sk_buff) option"
  ip_vs_app_pkt_out :: "ip_vs_conn \<Rightarrow> sk_buff \<Rightarrow> (ip_vs_conn \<times> sk_buff) option"
  skb_make_writable :: "sk_buff \<Rightarrow> nat \<Rightarrow> bool"

definition NF_DROP :: int where "NF_DROP = 0"

subsection \<open>The scheduling gate\<close>

text \<open>
  \<open>tcp_conn_schedule\<close>. \<open>verdict0\<close> and \<open>cpp0\<close> are what \<open>*verdict\<close> and
  \<open>*cpp\<close> hold on entry; the result is the return value with both out-parameters
  and the statistics.
\<close>

definition tcp_conn_schedule ::
  "sysctl \<Rightarrow> ip_vs_framework \<Rightarrow> ip_vs_estats \<Rightarrow> af_t \<Rightarrow> sk_buff \<Rightarrow> int \<Rightarrow> ip_vs_conn option
     \<Rightarrow> int \<times> int \<times> ip_vs_conn option \<times> ip_vs_estats" where
  "tcp_conn_schedule ctl fw mib family skb verdict0 cpp0 =
     (let ih = ip_vs_fill_iphdr family skb
      in case skb_header_pointer_tcp skb (iphdr_len ih) of
           None \<Rightarrow> (0, NF_DROP, cpp0, mib)
         | Some tcph \<Rightarrow>
            (case ip_vs_synproxy_ack_rcv fw family skb tcph ih of
               Some (v, c) \<Rightarrow> (0, v, c, mib)
             | None \<Rightarrow>
                (case (if syn tcph \<and> \<not> ack tcph \<and> \<not> fin tcph \<and> \<not> rst tcph
                       then ip_vs_service_get fw family (mark skb) (iphdr_protocol ih)
                              (iphdr_daddr ih) (dest tcph)
                       else None) of
                   Some svc \<Rightarrow>
                     if ip_vs_todrop fw then (0, NF_DROP, cpp0, mib)
                     else (case ip_vs_schedule fw svc skb of
                             None \<Rightarrow> (0, ip_vs_leave fw svc skb, None, mib)
                           | Some c \<Rightarrow> (1, verdict0, Some c, mib))
                 | None \<Rightarrow>
                     if sysctl_ip_vs_tcp_drop_entry ctl \<noteq> 0
                        \<and> ip_vs_lookup_vip fw family (iphdr_protocol ih) (iphdr_daddr ih) \<noteq> None
                     then (0, NF_DROP, cpp0, IP_VS_INC_ESTATS mib DEFENCE_TCP_DROP)
                     else (1, verdict0, cpp0, mib))))"

subsection \<open>Sequence bookkeeping\<close>

text \<open>
  \<open>tcp_save_out_seq\<close>. The callers pass the buffer, the flow and the header they
  hold, so the three \<open>NULL\<close> tests are never taken. \<open>ihl\<close> is the transport offset.
\<close>

definition tcp_save_out_seq :: "sysctl \<Rightarrow> sk_buff \<Rightarrow> ip_vs_conn \<Rightarrow> tcphdr \<Rightarrow> nat \<Rightarrow> ip_vs_conn" where
  "tcp_save_out_seq ctl skb cp tcph ihl =
     (if sysctl_ip_vs_conn_expire_tcp_rst ctl \<noteq> 0 \<and> \<not> rst tcph then
        if before (ntohl (ack_seq tcph)) (ntohl (rs_ack_seq cp)) \<and> rs_ack_seq cp \<noteq> 0
        then cp
        else cp\<lparr>rs_end_seq :=
                    (if syn tcph \<and> ack tcph then htonl (ntohl (seq tcph) + 1)
                     else htonl (ntohl (seq tcph) + len skb - of_nat ihl
                                 - of_nat (unat (doff tcph) * 4))),
                rs_ack_seq := ack_seq tcph\<rparr>
      else cp)"

text \<open>The per-state reuse counter bumped by \<open>tcp_in_init_seq\<close>, if there is one.\<close>

fun conn_reused_stat :: "ip_vs_tcp_state \<Rightarrow> estat option" where
  "conn_reused_stat IP_VS_TCP_S_CLOSE = Some FULLNAT_CONN_REUSED_CLOSE"
| "conn_reused_stat IP_VS_TCP_S_TIME_WAIT = Some FULLNAT_CONN_REUSED_TIMEWAIT"
| "conn_reused_stat IP_VS_TCP_S_FIN_WAIT = Some FULLNAT_CONN_REUSED_FINWAIT"
| "conn_reused_stat IP_VS_TCP_S_CLOSE_WAIT = Some FULLNAT_CONN_REUSED_CLOSEWAIT"
| "conn_reused_stat IP_VS_TCP_S_LAST_ACK = Some FULLNAT_CONN_REUSED_LASTACK"
| "conn_reused_stat IP_VS_TCP_S_ESTABLISHED = Some FULLNAT_CONN_REUSED_ESTAB"
| "conn_reused_stat _ = None"

definition tcp_in_init_seq ::
  "sysctl \<Rightarrow> ip_vs_framework \<Rightarrow> ip_vs_estats \<Rightarrow> ip_vs_conn \<Rightarrow> tcphdr \<Rightarrow> ip_vs_conn \<times> ip_vs_estats" where
  "tcp_in_init_seq ctl fw mib cp tcph =
     (let sq = ntohl (seq tcph);
          fseq = (fnat_seq cp)\<lparr>fdata_seq := sq + 1\<rparr>;
          cp1 = cp\<lparr>flags := flags cp - {IP_VS_CONN_F_CIP_INSERTED}\<rparr>;
          conn_reused_entry =
            (sysctl_ip_vs_conn_reused_entry ctl = 1 \<and> init_seq fseq \<noteq> 0
             \<and> (state cp = IP_VS_TCP_S_SYN_RECV \<or> state cp = IP_VS_TCP_S_SYN_SENT))
      in if init_seq fseq = 0 \<or> conn_reused_entry then
           let isn = (if af cp = AF_INET6
                      then secure_tcpv6_sequence_number fw (ip6 (laddr cp)) (ip6 (daddr cp))
                             (lport cp) (dport cp)
                      else secure_tcp_sequence_number fw (ip (laddr cp)) (ip (daddr cp))
                             (lport cp) (dport cp));
               fseq' = fseq\<lparr>init_seq := isn, delta := isn - sq\<rparr>;
               mib' = (if conn_reused_entry then
                         (let m = IP_VS_INC_ESTATS mib FULLNAT_CONN_REUSED
                          in case conn_reused_stat (old_state cp) of
                               Some c \<Rightarrow> IP_VS_INC_ESTATS m c
                             | None \<Rightarrow> m)
                       else mib)
           in (cp1\<lparr>fnat_seq := fseq'\<rparr>, mib')
         else (cp1\<lparr>fnat_seq := fseq\<rparr>, mib))"

subsection \<open>Application helpers\<close>

definition TCP_APP_TAB_BITS :: nat where "TCP_APP_TAB_BITS = 4"
definition TCP_APP_TAB_SIZE :: nat where "TCP_APP_TAB_SIZE = 2 ^ TCP_APP_TAB_BITS"
definition TCP_APP_TAB_MASK :: u16 where "TCP_APP_TAB_MASK = of_nat (TCP_APP_TAB_SIZE - 1)"

definition tcp_app_hashkey :: "be16 \<Rightarrow> u16" where
  "tcp_app_hashkey prt = (drop_bit TCP_APP_TAB_BITS prt XOR prt) AND TCP_APP_TAB_MASK"

text \<open>The bucket array \<open>tcp_apps\<close> (each bucket with its head first) and the counter
  \<open>ip_vs_protocol_tcp.appcnt\<close>.\<close>

record tcp_app_tab =
  tcp_apps :: "ip_vs_app list list"
  appcnt :: int

definition EEXIST :: int where "EEXIST = 17"

definition ip_vs_tcp_init :: tcp_app_tab where
  "ip_vs_tcp_init = \<lparr>tcp_apps = replicate TCP_APP_TAB_SIZE [], appcnt = 0\<rparr>"

definition tcp_register_app :: "tcp_app_tab \<Rightarrow> ip_vs_app \<Rightarrow> int \<times> tcp_app_tab" where
  "tcp_register_app tab inc =
     (let prt = port inc;
          hash = unat (tcp_app_hashkey prt)
      in if list_ex (\<lambda>i. port i = prt) (tcp_apps tab ! hash) then (- EEXIST, tab)
         else (0, tab\<lparr>tcp_apps := (tcp_apps tab)[hash := inc # tcp_apps tab ! hash],
                       appcnt := appcnt tab + 1\<rparr>))"

text \<open>\<open>tcp_unregister_app\<close>: \<open>list_del\<close> unlinks the helper from the bucket it is on.\<close>

definition tcp_unregister_app :: "tcp_app_tab \<Rightarrow> ip_vs_app \<Rightarrow> tcp_app_tab" where
  "tcp_unregister_app tab inc =
     tab\<lparr>appcnt := appcnt tab - 1, tcp_apps := map (remove1 inc) (tcp_apps tab)\<rparr>"

text \<open>The tables the module can be in: initialised, then any run of registrations and
  removals of registered helpers.\<close>

inductive apps_reachable :: "tcp_app_tab \<Rightarrow> bool" where
  init: "apps_reachable ip_vs_tcp_init"
| register: "apps_reachable tab \<Longrightarrow> apps_reachable (snd (tcp_register_app tab inc))"
| unregister: "apps_reachable tab \<Longrightarrow> inc \<in> set (concat (tcp_apps tab))
               \<Longrightarrow> apps_reachable (tcp_unregister_app tab inc)"

subsection \<open>The option walkers\<close>

text \<open>
  The three walkers run over the memory behind the fixed TCP header, \<open>ptr\<close> counted
  from \<open>(tcph + 1)\<close> and \<open>lng\<close> the signed \<open>length\<close> of the source. Next to the
  memory they leave behind, each returns the offsets it has dereferenced, in order.
  \<open>opcode\<close> and \<open>opsize\<close> are \<open>int\<close>, as in the source. The option kinds and
  lengths are those of \<open>net/tcp.h\<close>.
\<close>

definition TCPOPT_EOL :: int where "TCPOPT_EOL = 0"
definition TCPOPT_NOP :: int where "TCPOPT_NOP = 1"
definition TCPOPT_MSS :: int where "TCPOPT_MSS = 2"
definition TCPOPT_SACK :: int where "TCPOPT_SACK = 5"
definition TCPOPT_TIMESTAMP :: int where "TCPOPT_TIMESTAMP = 8"
definition TCPOLEN_MSS :: int where "TCPOLEN_MSS = 4"
definition TCPOLEN_TIMESTAMP :: int where "TCPOLEN_TIMESTAMP = 10"
definition TCPOLEN_SACK_BASE :: int where "TCPOLEN_SACK_BASE = 2"
definition TCPOLEN_SACK_PERBLOCK :: int where "TCPOLEN_SACK_PERBLOCK = 8"

text \<open>Modelled from the spec: \<open>TCPOLEN_ADDR\<close>, the size of \<open>struct ip_vs_tcpo_addr\<close>,
  is defined in \<open>net/ip_vs.h\<close>; section 4.2 gives the option as an 8-byte TLV.\<close>

definition TCPOLEN_ADDR :: int where "TCPOLEN_ADDR = 8"

text \<open>The option length computed from the header: \<open>(tcph->doff * 4) - sizeof(struct tcphdr)\<close>.\<close>

definition tcp_optlen :: "tcphdr \<Rightarrow> int" where
  "tcp_optlen tcph = uint (doff tcph) * 4 - 20"

function opt_adjust_mss_loop :: "mem \<Rightarrow> nat list \<Rightarrow> nat \<Rightarrow> int \<Rightarrow> mem \<times> nat list" where
  "opt_adjust_mss_loop m acc ptr lng =
     (if lng > 0 then
        (let opcode = uint (m ptr); acc1 = acc @ [ptr] in
         if opcode = TCPOPT_EOL then (m, acc1)
         else if opcode = TCPOPT_NOP then opt_adjust_mss_loop m acc1 (ptr + 1) (lng - 1)
         else
           (let opsize = uint (m (ptr + 1)); acc2 = acc1 @ [ptr + 1] in
            if opsize < 2 then (m, acc2)
            else if opsize > lng then (m, acc2)
            else if opcode = TCPOPT_MSS \<and> opsize = TCPOLEN_MSS then
              (store16 m (ptr + 2)
                 (htons (ntohs (load16 m (ptr + 2)) - word_of_int TCPOLEN_ADDR)),
               acc2 @ [ptr + 2, ptr + 3])
            else opt_adjust_mss_loop m acc2 (ptr + 2 + nat (opsize - 2)) (lng - opsize)))
      else (m, acc))"
  by pat_completeness auto
termination
  by (relation "measure (\<lambda>(m, acc, ptr, lng). nat lng)") auto

declare opt_adjust_mss_loop.simps [simp del]

definition tcp_opt_adjust_mss :: "sysctl \<Rightarrow> tcphdr \<Rightarrow> mem \<Rightarrow> mem \<times> nat list" where
  "tcp_opt_adjust_mss ctl tcph m =
     (if sysctl_ip_vs_mss_adjust_entry ctl = 0 then (m, [])
      else opt_adjust_mss_loop m [] 0 (tcp_optlen tcph))"

text \<open>The ten stores of the timestamp eraser, \<open>*(ptr - 2 + i) = TCPOPT_NOP\<close>; \<open>p\<close> is the
  offset of the option's first byte.\<close>

fun opt_nop_fill :: "mem \<Rightarrow> nat list \<Rightarrow> nat \<Rightarrow> nat \<Rightarrow> mem \<times> nat list" where
  "opt_nop_fill m acc p 0 = (m, acc)"
| "opt_nop_fill m acc p (Suc k) = opt_nop_fill (m(p := word_of_int TCPOPT_NOP)) (acc @ [p]) (p + 1) k"

function opt_remove_timestamp_loop :: "mem \<Rightarrow> nat list \<Rightarrow> nat \<Rightarrow> int \<Rightarrow> mem \<times> nat list" where
  "opt_remove_timestamp_loop m acc ptr lng =
     (if lng > 0 then
        (let opcode = uint (m ptr); acc1 = acc @ [ptr] in
         if opcode = TCPOPT_EOL then (m, acc1)
         else if opcode = TCPOPT_NOP then opt_remove_timestamp_loop m acc1 (ptr + 1) (lng - 1)
         else
           (let opsize = uint (m (ptr + 1)); acc2 = acc1 @ [ptr + 1] in
            if opsize < 2 then (m, acc2)
            else if opsize > lng then (m, acc2)
            else if opcode = TCPOPT_TIMESTAMP \<and> opsize = TCPOLEN_TIMESTAMP then
              opt_nop_fill m acc2 ptr (nat TCPOLEN_TIMESTAMP)
            else opt_remove_timestamp_loop m acc2 (ptr + 2 + nat (opsize - 2)) (lng - opsize)))
      else (m, acc))"
  by pat_completeness auto
termination
  by (relation "measure (\<lambda>(m, acc, ptr, lng). nat lng)") auto

declare opt_remove_timestamp_loop.simps [simp del]

definition tcp_opt_remove_timestamp :: "sysctl \<Rightarrow> tcphdr \<Rightarrow> mem \<Rightarrow> mem \<times> nat list" where
  "tcp_opt_remove_timestamp ctl tcph m =
     (if sysctl_ip_vs_timestamp_remove_entry ctl = 0 then (m, [])
      else opt_remove_timestamp_loop m [] 0 (tcp_optlen tcph))"

text \<open>
  The inner loop of the SACK rewrite,
  \<open>for (i = 0; i < opsize - TCPOLEN_SACK_BASE; i += 4) *((__u32 *) ptr + i) = ...\<close>:
  \<open>ptr\<close> is the offset of the first block and \<open>n\<close> is \<open>opsize - TCPOLEN_SACK_BASE\<close>.
  The index is added to a \<open>__u32\<close> pointer, so step \<open>i\<close> addresses byte
  \<open>ptr + 4 * i\<close>. \<open>i\<close> is a \<open>__u8\<close>; \<open>n\<close> is a multiple of 8 below 256 when the
  loop is entered, so \<open>i\<close> never wraps.
\<close>

function out_adjust_sack :: "mem \<Rightarrow> nat list \<Rightarrow> nat \<Rightarrow> nat \<Rightarrow> int \<Rightarrow> u32 \<Rightarrow> mem \<times> nat list" where
  "out_adjust_sack m acc ptr i n dlt =
     (if int i < n then
        out_adjust_sack
          (store32 m (ptr + 4 * i) (htonl (ntohl (load32 m (ptr + 4 * i)) - dlt)))
          (acc @ [ptr + 4 * i, ptr + 4 * i + 1, ptr + 4 * i + 2, ptr + 4 * i + 3])
          ptr (i + 4) n dlt
      else (m, acc))"
  by pat_completeness auto
termination
  by (relation "measure (\<lambda>(m, acc, ptr, i, n, dlt). nat n - i)") auto

declare out_adjust_sack.simps [simp del]

function out_adjust_seq_loop :: "mem \<Rightarrow> nat list \<Rightarrow> nat \<Rightarrow> int \<Rightarrow> u32 \<Rightarrow> mem \<times> nat list" where
  "out_adjust_seq_loop m acc ptr lng dlt =
     (if lng > 0 then
        (let opcode = uint (m ptr); acc1 = acc @ [ptr] in
         if opcode = TCPOPT_EOL then (m, acc1)
         else if opcode = TCPOPT_NOP then out_adjust_seq_loop m acc1 (ptr + 1) (lng - 1) dlt
         else
           (let opsize = uint (m (ptr + 1)); acc2 = acc1 @ [ptr + 1] in
            if opsize < 2 then (m, acc2)
            else if opsize > lng then (m, acc2)
            else if opcode = TCPOPT_SACK
                    \<and> opsize \<ge> TCPOLEN_SACK_BASE + TCPOLEN_SACK_PERBLOCK
                    \<and> (opsize - TCPOLEN_SACK_BASE) mod TCPOLEN_SACK_PERBLOCK = 0 then
              out_adjust_sack m acc2 (ptr + 2) 0 (opsize - TCPOLEN_SACK_BASE) dlt
            else out_adjust_seq_loop m acc2 (ptr + 2 + nat (opsize - 2)) (lng - opsize) dlt))
      else (m, acc))"
  by pat_completeness auto
termination
  by (relation "measure (\<lambda>(m, acc, ptr, lng, dlt). nat lng)") auto

declare out_adjust_seq_loop.simps [simp del]

text \<open>Modelled from the spec: the two SYN-proxy handlers of \<open>ip_vs_synproxy.c\<close>, around
  the hooks of the framework.\<close>

definition ip_vs_synproxy_snat_handler ::
  "ip_vs_framework \<Rightarrow> tcphdr \<Rightarrow> ip_vs_conn \<Rightarrow> tcphdr option" where
  "ip_vs_synproxy_snat_handler fw tcph cp =
     (case ip_vs_synproxy_snat fw tcph cp of
        None \<Rightarrow> None
      | Some s \<Rightarrow> Some (tcph\<lparr>seq := s\<rparr>))"

definition ip_vs_synproxy_dnat_handler ::
  "ip_vs_framework \<Rightarrow> tcphdr \<Rightarrow> mem \<Rightarrow> ip_vs_seq \<Rightarrow> tcphdr \<times> mem" where
  "ip_vs_synproxy_dnat_handler fw tcph m sp_seq =
     (tcph\<lparr>ack_seq := fst (ip_vs_synproxy_dnat fw tcph m sp_seq)\<rparr>,
      snd (ip_vs_synproxy_dnat fw tcph m sp_seq))"

text \<open>\<open>tcp_out_adjust_seq\<close>: \<open>None\<close> is the return value 0; otherwise the header, the
  memory behind it and the offsets dereferenced there.\<close>

definition tcp_out_adjust_seq ::
  "ip_vs_framework \<Rightarrow> ip_vs_conn \<Rightarrow> tcphdr \<Rightarrow> mem \<Rightarrow> (tcphdr \<times> mem \<times> nat list) option" where
  "tcp_out_adjust_seq fw cp tcph m =
     (case ip_vs_synproxy_snat_handler fw tcph cp of
        None \<Rightarrow> None
      | Some tcph1 \<Rightarrow>
          Some (tcph1\<lparr>ack_seq := htonl (ntohl (ack_seq tcph1) - delta (fnat_seq cp))\<rparr>,
                out_adjust_seq_loop m [] 0 (tcp_optlen tcph1) (delta (fnat_seq cp))))"

definition tcp_in_adjust_seq ::
  "ip_vs_framework \<Rightarrow> ip_vs_conn \<Rightarrow> tcphdr \<Rightarrow> mem \<Rightarrow> tcphdr \<times> mem" where
  "tcp_in_adjust_seq fw cp tcph m =
     ip_vs_synproxy_dnat_handler fw
       (tcph\<lparr>seq := htonl (ntohl (seq tcph) + delta (fnat_seq cp))\<rparr>) m (syn_proxy_seq cp)"

subsection \<open>Checksums\<close>

text \<open>
  Modelled from the spec: the checksum helpers of the kernel (\<open>csum_partial\<close>,
  \<open>csum_fold\<close>, \<open>csum_tcpudp_magic\<close>, \<open>csum_ipv6_magic\<close>, \<open>ip_fast_csum\<close>,
  \<open>ip_send_check\<close>, \<open>skb_checksum\<close>) are not part of the file. Section 4.1 of the
  specification has the full recomputation "zero the field, sum the whole segment, then
  add the pseudo-header magic", and verification against the pseudo-header. The sum is
  the Internet checksum over the bytes in memory: a \<open>__wsum\<close> is a natural number,
  the sum of the 16-bit words added so far, and \<open>csum_fold\<close> wraps the carries around
  and complements in 16 bits.
\<close>

definition le16_bytes :: "u16 \<Rightarrow> u8 list" where
  "le16_bytes w = [ucast w, ucast (drop_bit 8 w)]"

definition le32_bytes :: "u32 \<Rightarrow> u8 list" where
  "le32_bytes w = [ucast w, ucast (drop_bit 8 w), ucast (drop_bit 16 w), ucast (drop_bit 24 w)]"

fun csum_partial :: "u8 list \<Rightarrow> nat" where
  "csum_partial [] = 0"
| "csum_partial [a] = unat a"
| "csum_partial (a # b # bs) = unat a + 256 * unat b + csum_partial bs"

function wsum_fold :: "nat \<Rightarrow> nat" where
  "wsum_fold n = (if n < 65536 then n else wsum_fold (n mod 65536 + n div 65536))"
  by pat_completeness auto
termination
proof (relation "measure (\<lambda>n. n)")
  show "wf (measure (\<lambda>n :: nat. n))" by simp
next
  fix n :: nat
  assume big: "\<not> n < 65536"
  have d: "1 \<le> n div 65536"
    using big by (simp add: Suc_le_eq div_greater_zero_iff)
  have "n = 65536 * (n div 65536) + n mod 65536" by simp
  with d have "n mod 65536 + n div 65536 < n" by linarith
  then show "(n mod 65536 + n div 65536, n) \<in> measure (\<lambda>n. n)" by simp
qed

declare wsum_fold.simps [simp del]

definition csum_fold :: "nat \<Rightarrow> u16" where
  "csum_fold s = word_of_nat (65535 - wsum_fold s)"

definition csum_tcpudp_magic :: "be32 \<Rightarrow> be32 \<Rightarrow> u16 \<Rightarrow> u16 \<Rightarrow> nat \<Rightarrow> u16" where
  "csum_tcpudp_magic sa da l proto s =
     csum_fold (s + unat sa + unat da + (unat l + unat proto) * 256)"

definition csum_ipv6_magic :: "nf_inet_addr \<Rightarrow> nf_inet_addr \<Rightarrow> u32 \<Rightarrow> u16 \<Rightarrow> nat \<Rightarrow> u16" where
  "csum_ipv6_magic sa da l proto s =
     csum_fold (s + sum_list (map unat (ip6 sa)) + sum_list (map unat (ip6 da))
                + unat (htonl l) + unat (htonl (ucast proto)))"

text \<open>The bytes of the two headers as they lie in memory (little-endian bit-fields).\<close>

definition tcp_flag_byte :: "tcphdr \<Rightarrow> u8" where
  "tcp_flag_byte tcph =
     (if cwr tcph then 0x80 else 0) OR (if ece tcph then 0x40 else 0)
     OR (if urg tcph then 0x20 else 0) OR (if ack tcph then 0x10 else 0)
     OR (if psh tcph then 0x08 else 0) OR (if rst tcph then 0x04 else 0)
     OR (if syn tcph then 0x02 else 0) OR (if fin tcph then 0x01 else 0)"

definition tcphdr_bytes :: "tcphdr \<Rightarrow> u8 list" where
  "tcphdr_bytes tcph =
     le16_bytes (source tcph) @ le16_bytes (dest tcph) @ le32_bytes (seq tcph)
     @ le32_bytes (ack_seq tcph)
     @ [push_bit 4 (ucast (doff tcph)) OR ucast (res1 tcph), tcp_flag_byte tcph]
     @ le16_bytes (window tcph) @ le16_bytes (check tcph) @ le16_bytes (urg_ptr tcph)"

definition iphdr_bytes :: "iphdr \<Rightarrow> u8 list" where
  "iphdr_bytes h =
     [push_bit 4 (ucast (ip_version h)) OR ucast (ip_ihl h), ip_tos h]
     @ le16_bytes (ip_tot_len h) @ le16_bytes (ip_id h) @ le16_bytes (ip_frag_off h)
     @ [ip_ttl h, ip_protocol h] @ le16_bytes (ip_check h)
     @ le32_bytes (ip_saddr h) @ le32_bytes (ip_daddr h)"

text \<open>\<open>ip_fast_csum(iph, ihl)\<close> over the header and its options, and \<open>ip_send_check\<close>.\<close>

definition ip_fast_csum :: "iphdr \<Rightarrow> u8 list \<Rightarrow> u16" where
  "ip_fast_csum h opts =
     csum_fold (csum_partial (take (4 * unat (ip_ihl h)) (iphdr_bytes h @ opts)))"

definition ip_send_check :: "iphdr \<Rightarrow> u8 list \<Rightarrow> iphdr" where
  "ip_send_check h opts = h\<lparr>ip_check := ip_fast_csum (h\<lparr>ip_check := 0\<rparr>) opts\<rparr>"

text \<open>\<open>skb_checksum(skb, tcphoff, n, 0)\<close>: the sum over the first \<open>n\<close> bytes of the
  TCP segment, the header followed by the memory behind it.\<close>

definition skb_checksum :: "sk_buff \<Rightarrow> nat \<Rightarrow> nat" where
  "skb_checksum skb n =
     csum_partial (take n (tcphdr_bytes (th skb) @ map (data skb) [0 ..< n - 20]))"

text \<open>\<open>tcp_csum_check\<close>: the verdict, and the buffer with the sum it may have stored.\<close>

definition tcp_csum_check :: "af_t \<Rightarrow> sk_buff \<Rightarrow> bool \<times> sk_buff" where
  "tcp_csum_check family skb =
     (let tcphoff = (if family = AF_INET6 then 40 else ip_hdrlen skb);
          skb1 = (if ip_summed skb = CHECKSUM_NONE
                  then skb\<lparr>csum := skb_checksum skb (unat (len skb) - tcphoff)\<rparr> else skb)
      in if ip_summed skb = CHECKSUM_NONE \<or> ip_summed skb = CHECKSUM_COMPLETE then
           (if family = AF_INET6 then
              (csum_ipv6_magic (ip6_saddr (ipv6h skb1)) (ip6_daddr (ipv6h skb1))
                 (len skb1 - of_nat tcphoff) (ucast (ip6_nexthdr (ipv6h skb1))) (csum skb1) = 0,
               skb1)
            else
              (csum_tcpudp_magic (ip_saddr (iph skb1)) (ip_daddr (iph skb1))
                 (ucast (len skb1 - of_nat tcphoff)) (ucast (ip_protocol (iph skb1))) (csum skb1) = 0,
               skb1))
         else (True, skb1))"

subsection \<open>Inserting the client address\<close>

text \<open>The copy loop of \<open>tcp_opt_add_toa\<close>, \<open>while (p >= th + 1) { *q = *p; p--; q--; }\<close>
  with \<open>q = p + 8\<close>: the \<open>k\<close> bytes behind the fixed header move up by eight, the
  last one first.\<close>

fun toa_move_down :: "mem \<Rightarrow> nat \<Rightarrow> mem" where
  "toa_move_down m 0 = m"
| "toa_move_down m (Suc k) = toa_move_down (m(k + 8 := m k)) k"

text \<open>
  \<open>tcp_opt_add_toa\<close>. \<open>opc\<close> is the option kind \<open>TCPOPT_ADDR\<close> of \<open>net/ip_vs.h\<close>
  and \<open>copied\<close> tells whether \<open>skb_copy_expand\<close> returned a buffer. The length test
  is made in 64 bits, \<open>sizeof\<close> being an \<open>unsigned long\<close>. The result is the buffer
  handed back, the flow and the statistics.
\<close>

definition tcp_opt_add_toa ::
  "u8 \<Rightarrow> bool \<Rightarrow> ip_vs_estats \<Rightarrow> ip_vs_conn \<Rightarrow> sk_buff \<Rightarrow> sk_buff \<times> ip_vs_conn \<times> ip_vs_estats" where
  "tcp_opt_add_toa opc copied mib cp old_skb =
     (if af cp \<noteq> AF_INET then
        (old_skb, cp, IP_VS_INC_ESTATS mib FULLNAT_ADD_TOA_FAIL_PROTO)
      else if after (ntohl (seq (th old_skb))) (fdata_seq (fnat_seq cp)) then
        (old_skb, cp\<lparr>flags := insert IP_VS_CONN_F_CIP_INSERTED (flags cp)\<rparr>, mib)
      else if (ucast (len old_skb) :: 64 word) > ucast (dst_mtu old_skb) - word_of_int TCPOLEN_ADDR then
        (old_skb, cp, IP_VS_INC_ESTATS mib FULLNAT_ADD_TOA_FAIL_LEN)
      else if \<not> copied then
        (old_skb, cp, IP_VS_INC_ESTATS mib FULLNAT_ADD_TOA_FAIL_MEM)
      else
        (let tcphoff = ip_hdrlen old_skb;
             moved = toa_move_down (data old_skb) (unat (len old_skb) - tcphoff - 20);
             toa = store32 (store16 (moved(0 := opc, 1 := word_of_int TCPOLEN_ADDR)) 2 (cport cp))
                     4 (ip (caddr cp));
             tcph' = (th old_skb)\<lparr>doff := doff (th old_skb) + 2\<rparr>;
             iph' = (iph old_skb)\<lparr>ip_tot_len :=
                       htons (ntohs (ip_tot_len (iph old_skb)) + word_of_int TCPOLEN_ADDR)\<rparr>
         in (old_skb\<lparr>data := toa, th := tcph', len := len old_skb + word_of_int TCPOLEN_ADDR,
                     iph := ip_send_check iph' (ip_options old_skb)\<rparr>,
             cp, IP_VS_INC_ESTATS mib FULLNAT_ADD_TOA_OK)))"

subsection \<open>The FullNAT handlers\<close>

text \<open>
  The block both handlers run when a helper is bound: the checksum test of the protocol,
  if it has one, then the helper's callback. \<open>None\<close> is the return value 0.
\<close>

definition app_pkt_checks ::
  "(ip_vs_conn \<Rightarrow> sk_buff \<Rightarrow> (ip_vs_conn \<times> sk_buff) option) \<Rightarrow> ip_vs_protocol
     \<Rightarrow> ip_vs_conn \<Rightarrow> sk_buff \<Rightarrow> (ip_vs_conn \<times> sk_buff) option" where
  "app_pkt_checks app_pkt pp cp skb =
     (if app cp = None then Some (cp, skb)
      else
        (case csum_check pp of
           None \<Rightarrow> app_pkt cp skb
         | Some chk \<Rightarrow>
             if \<not> fst (chk (af cp) skb) then None
             else app_pkt cp (snd (chk (af cp) skb))))"

text \<open>The full checksum calculation that ends both handlers, from \<open>sa\<close> to \<open>da\<close>.\<close>

definition tcp_full_csum :: "ip_vs_conn \<Rightarrow> nf_inet_addr \<Rightarrow> nf_inet_addr \<Rightarrow> nat \<Rightarrow> sk_buff \<Rightarrow> sk_buff" where
  "tcp_full_csum cp sa da tcphoff skb =
     (let skb0 = skb\<lparr>th := (th skb)\<lparr>check := 0\<rparr>\<rparr>;
          skb1 = skb0\<lparr>csum := skb_checksum skb0 (unat (len skb0) - tcphoff)\<rparr>;
          c = (if af cp = AF_INET6
               then csum_ipv6_magic sa da (len skb1 - of_nat tcphoff) (protocol cp) (csum skb1)
               else csum_tcpudp_magic (ip sa) (ip da) (ucast (len skb1 - of_nat tcphoff))
                      (protocol cp) (csum skb1))
      in skb1\<lparr>th := (th skb1)\<lparr>check := c\<rparr>\<rparr>)"

text \<open>\<open>tcp_fnat_in_handler\<close>: the return value, the buffer \<open>*skb_p\<close> refers to
  afterwards, the flow and the statistics.\<close>

definition tcp_fnat_in_handler ::
  "sysctl \<Rightarrow> ip_vs_framework \<Rightarrow> u8 \<Rightarrow> bool \<Rightarrow> ip_vs_estats \<Rightarrow> sk_buff \<Rightarrow> ip_vs_protocol \<Rightarrow> ip_vs_conn
     \<Rightarrow> int \<times> sk_buff \<times> ip_vs_conn \<times> ip_vs_estats" where
  "tcp_fnat_in_handler ctl fw opc copied mib skb pp cp =
     (let tcphoff = (if af cp = AF_INET6 then 40 else ip_hdrlen skb)
      in if \<not> skb_make_writable fw skb (tcphoff + 20) then (0, skb, cp, mib)
         else
           (case app_pkt_checks (ip_vs_app_pkt_in fw) pp cp skb of
              None \<Rightarrow> (0, skb, cp, mib)
            | Some (cp0, skb0) \<Rightarrow>
               (let skb1 = skb0\<lparr>th := (th skb0)\<lparr>source := lport cp0, dest := dport cp0\<rparr>\<rparr>;
                    is_syn = (syn (th skb1) \<and> \<not> ack (th skb1));
                    skb2 = (if is_syn
                            then skb1\<lparr>data := fst (tcp_opt_remove_timestamp ctl (th skb1) (data skb1))\<rparr>
                            else skb1);
                    cp2 = (if is_syn then fst (tcp_in_init_seq ctl fw mib cp0 (th skb2)) else cp0);
                    mib2 = (if is_syn then snd (tcp_in_init_seq ctl fw mib cp0 (th skb2)) else mib);
                    do_toa = (sysctl_ip_vs_toa_entry ctl = 1
                              \<and> IP_VS_CONN_F_CIP_INSERTED \<notin> flags cp2
                              \<and> \<not> rst (th skb2) \<and> \<not> fin (th skb2));
                    skb3 = (if do_toa then fst (tcp_opt_add_toa opc copied mib2 cp2 skb2) else skb2);
                    cp3 = (if do_toa then fst (snd (tcp_opt_add_toa opc copied mib2 cp2 skb2)) else cp2);
                    mib3 = (if do_toa then snd (snd (tcp_opt_add_toa opc copied mib2 cp2 skb2)) else mib2);
                    skb4 = skb3\<lparr>th := fst (tcp_in_adjust_seq fw cp3 (th skb3) (data skb3)),
                                data := snd (tcp_in_adjust_seq fw cp3 (th skb3) (data skb3))\<rparr>;
                    skb5 = tcp_full_csum cp3 (laddr cp3) (daddr cp3) tcphoff skb4
                in (1, skb5\<lparr>ip_summed := CHECKSUM_UNNECESSARY\<rparr>, cp3, mib3))))"

text \<open>\<open>tcp_fnat_out_handler\<close>: the return value, the buffer and the flow.\<close>

definition tcp_fnat_out_handler ::
  "sysctl \<Rightarrow> ip_vs_framework \<Rightarrow> sk_buff \<Rightarrow> ip_vs_protocol \<Rightarrow> ip_vs_conn \<Rightarrow> int \<times> sk_buff \<times> ip_vs_conn" where
  "tcp_fnat_out_handler ctl fw skb pp cp =
     (let tcphoff = (if af cp = AF_INET6 then 40 else ip_hdrlen skb)
      in if \<not> skb_make_writable fw skb (tcphoff + 20) then (0, skb, cp)
         else
           (case app_pkt_checks (ip_vs_app_pkt_out fw) pp cp skb of
              None \<Rightarrow> (0, skb, cp)
            | Some (cp0, skb0) \<Rightarrow>
               (let cp1 = tcp_save_out_seq ctl skb0 cp0 (th skb0) tcphoff;
                    skb1 = skb0\<lparr>th := (th skb0)\<lparr>source := vport cp1, dest := cport cp1\<rparr>\<rparr>;
                    skb2 = (if syn (th skb1) \<and> ack (th skb1)
                            then skb1\<lparr>data := fst (tcp_opt_adjust_mss ctl (th skb1) (data skb1))\<rparr>
                            else skb1)
                in case tcp_out_adjust_seq fw cp1 (th skb2) (data skb2) of
                     None \<Rightarrow> (0, skb2, cp1)
                   | Some (tcph', m', acc) \<Rightarrow>
                       (1, tcp_full_csum cp1 (vaddr cp1) (caddr cp1) tcphoff
                             (skb2\<lparr>th := tcph', data := m'\<rparr>), cp1))))"

subsection \<open>Reset on expiry\<close>

text \<open>The constants of the IP headers the senders write.\<close>

definition IPPROTO_TCP :: u8 where "IPPROTO_TCP = 6"
definition NEXTHDR_TCP :: u8 where "NEXTHDR_TCP = 6"
definition IP_DF :: u16 where "IP_DF = 0x4000"
definition IPDEFTTL :: u8 where "IPDEFTTL = 64"
definition IPV6_DEFAULT_HOPLIMIT :: u8 where "IPV6_DEFAULT_HOPLIMIT = 64"

text \<open>
  \<open>alloc_skb\<close> hands out a buffer of length 0 whose memory holds whatever it held
  before: \<open>raw\<close> is that memory, seen through the header views. \<open>skb_push\<close> grows the
  buffer at its front.
\<close>

definition alloc_skb :: "sk_buff \<Rightarrow> sk_buff" where
  "alloc_skb raw = raw\<lparr>len := 0, mark := 0, ip_summed := CHECKSUM_NONE, ip_options := []\<rparr>"

definition skb_push :: "sk_buff \<Rightarrow> nat \<Rightarrow> sk_buff" where
  "skb_push skb n = skb\<lparr>len := len skb + of_nat n\<rparr>"

text \<open>The transmit routine a synthesised segment is handed to.\<close>

datatype xmit_t =
    PACKET_XMIT
  | FNAT_RESPONSE_XMIT
  | NORMAL_RESPONSE_XMIT
  | FNAT_RESPONSE_XMIT_V6
  | NORMAL_RESPONSE_XMIT_V6

text \<open>
  The IPv4 branch the two senders share: the buffer holds the TCP header \<open>tcph\<close>; a
  20-byte IPv4 header from \<open>sa\<close> to \<open>da\<close> is pushed in front of it and both checksums
  are computed. \<open>tos\<close> and \<open>id\<close> are never written and keep what the memory held.
\<close>

definition rst_build_v4 :: "sk_buff \<Rightarrow> tcphdr \<Rightarrow> be32 \<Rightarrow> be32 \<Rightarrow> sk_buff" where
  "rst_build_v4 skb tcph sa da =
     (let skb1 = skb_push skb 20;
          tcphoff = 20;
          h = ip_send_check
                ((iph skb1)\<lparr>ip_version := 4, ip_ihl := 5, ip_tot_len := htons (ucast (len skb1)),
                             ip_frag_off := htons IP_DF, ip_ttl := IPDEFTTL,
                             ip_protocol := IPPROTO_TCP, ip_saddr := sa, ip_daddr := da\<rparr>)
                (ip_options skb1);
          skb2 = skb1\<lparr>iph := h, th := tcph\<lparr>check := 0\<rparr>\<rparr>;
          skb3 = skb2\<lparr>csum := skb_checksum skb2 (unat (len skb2) - tcphoff)\<rparr>
      in skb3\<lparr>th := (th skb3)\<lparr>check := csum_tcpudp_magic (ip_saddr h) (ip_daddr h)
                                           (ucast (len skb3 - of_nat tcphoff))
                                           (ucast IPPROTO_TCP) (csum skb3)\<rparr>\<rparr>)"

text \<open>
  The IPv6 branch the two senders share. Only \<open>sizeof(struct iphdr)\<close>, 20 bytes, are
  pushed for the 40-byte IPv6 header, so the header lies over the 20 bytes of the TCP
  header written before: the two \<open>memcpy\<close> of the addresses overwrite it, \<open>th->check\<close>
  is bytes 12 and 13 of the destination address (the low half of its fourth word), the
  checksum runs over \<open>skb->len - tcphoff = 0\<close> bytes, and the 40 bytes that leave hold
  an IPv6 header only. What a reader finds at the transport offset 40 is the memory
  behind the buffer, which nothing has written.
\<close>

definition rst_build_v6 :: "sk_buff \<Rightarrow> tcphdr \<Rightarrow> nf_inet_addr \<Rightarrow> nf_inet_addr \<Rightarrow> sk_buff" where
  "rst_build_v6 skb tcph sa da =
     (let skb1 = skb_push skb 20;
          tcphoff = 40;
          da0 = da\<lparr>all3 := all3 da AND 0xffff0000\<rparr>;
          skb2 = skb1\<lparr>csum := 0\<rparr>;
          c = csum_ipv6_magic sa da0 (len skb2 - of_nat tcphoff) (ucast IPPROTO_TCP) (csum skb2)
      in skb2\<lparr>ipv6h := (ipv6h skb2)\<lparr>ip6_version := 6, ip6_nexthdr := NEXTHDR_TCP,
                                       ip6_hop_limit := IPV6_DEFAULT_HOPLIMIT, ip6_saddr := sa,
                                       ip6_daddr := da0\<lparr>all3 := all3 da0 OR ucast c\<rparr>\<rparr>\<rparr>)"

text \<open>
  \<open>tcp_send_rst_in\<close> and \<open>tcp_send_rst_out\<close>. \<open>fresh\<close> is what \<open>alloc_skb\<close>
  returned: \<open>None\<close> for \<open>NULL\<close>, else the memory of the new buffer. The result is the
  segment handed to a transmit routine, if any. The queued ACK is put back at the head
  of \<open>cp->ack_skb\<close>, so the flow is left as it was.
\<close>

definition tcp_send_rst_in :: "sk_buff option \<Rightarrow> ip_vs_conn \<Rightarrow> (xmit_t \<times> sk_buff) option" where
  "tcp_send_rst_in fresh cp =
     (case fresh of
        None \<Rightarrow> None
      | Some raw \<Rightarrow>
         (let skb = (skb_push (alloc_skb raw) 20)\<lparr>csum := 0\<rparr>;
              tcph = tcphdr_zero\<lparr>source := cport cp, dest := vport cp\<rparr>;
              sq = (if state cp = IP_VS_TCP_S_SYN_SENT \<and> ack_skb cp \<noteq> []
                    then Some (seq (th (hd (ack_skb cp))))
                    else if state cp = IP_VS_TCP_S_ESTABLISHED
                    then Some (if fwd_method cp AND IP_VS_CONN_F_FULLNAT \<noteq> 0
                               then htonl (ntohl (rs_ack_seq cp) - delta (fnat_seq cp))
                               else rs_ack_seq cp)
                    else None)
          in case sq of
               None \<Rightarrow> None
             | Some s \<Rightarrow>
                (let tcph' = tcph\<lparr>seq := s, ack_seq := 0, doff := 5, rst := True\<rparr>
                 in if af cp = AF_INET6
                    then Some (PACKET_XMIT, rst_build_v6 skb tcph' (caddr cp) (vaddr cp))
                    else Some (PACKET_XMIT, rst_build_v4 skb tcph' (ip (caddr cp)) (ip (vaddr cp))))))"

definition tcp_send_rst_out :: "sk_buff option \<Rightarrow> ip_vs_conn \<Rightarrow> (xmit_t \<times> sk_buff) option" where
  "tcp_send_rst_out fresh cp =
     (case fresh of
        None \<Rightarrow> None
      | Some raw \<Rightarrow>
         (let skb = (skb_push (alloc_skb raw) 20)\<lparr>csum := 0\<rparr>;
              tcph = tcphdr_zero\<lparr>source := dport cp,
                                 dest := (if fwd_method cp AND IP_VS_CONN_F_FULLNAT \<noteq> 0
                                          then lport cp else cport cp)\<rparr>;
              sq = (if state cp = IP_VS_TCP_S_SYN_SENT \<and> ack_skb cp \<noteq> []
                    then Some (htonl (ntohl (ack_seq (th (hd (ack_skb cp))))
                                      - delta (syn_proxy_seq cp)))
                    else if state cp = IP_VS_TCP_S_ESTABLISHED
                    then Some (rs_end_seq cp)
                    else None)
          in case sq of
               None \<Rightarrow> None
             | Some s \<Rightarrow>
                (let tcph' = tcph\<lparr>seq := s, ack_seq := 0, doff := 5, rst := True\<rparr>
                 in if af cp = AF_INET6
                    then Some (if fwd_method cp AND IP_VS_CONN_F_FULLNAT \<noteq> 0
                               then FNAT_RESPONSE_XMIT_V6 else NORMAL_RESPONSE_XMIT_V6,
                               rst_build_v6 skb tcph' (daddr cp) (laddr cp))
                    else Some (if fwd_method cp AND IP_VS_CONN_F_FULLNAT \<noteq> 0
                               then FNAT_RESPONSE_XMIT else NORMAL_RESPONSE_XMIT,
                               rst_build_v4 skb tcph' (ip (daddr cp)) (ip (laddr cp))))))"

text \<open>\<open>tcp_conn_expire_handler\<close>: the segments handed to the transmit routines, in
  order. \<open>fresh_in\<close> and \<open>fresh_out\<close> are the outcomes of the two allocations.\<close>

definition tcp_conn_expire_handler ::
  "sysctl \<Rightarrow> sk_buff option \<Rightarrow> sk_buff option \<Rightarrow> ip_vs_conn \<Rightarrow> (xmit_t \<times> sk_buff) list" where
  "tcp_conn_expire_handler ctl fresh_in fresh_out cp =
     (if sysctl_ip_vs_conn_expire_tcp_rst ctl \<noteq> 0
         \<and> (fwd_method cp AND (IP_VS_CONN_F_FULLNAT OR IP_VS_CONN_F_MASQ) \<noteq> 0)
      then (case tcp_send_rst_in fresh_in cp of None \<Rightarrow> [] | Some x \<Rightarrow> [x])
           @ (case tcp_send_rst_out fresh_out cp of None \<Rightarrow> [] | Some x \<Rightarrow> [x])
      else [])"

subsection \<open>Concrete segments, flows and tables\<close>

text \<open>Values on which the model is evaluated below: a zeroed flow, a 40-byte IPv4
  buffer, every switch turned on, and a framework with one service on
  port 80 whose SYN-proxy hooks and helper callbacks change nothing.\<close>

definition addr_zero :: nf_inet_addr where
  "addr_zero = \<lparr>all0 = 0, all1 = 0, all2 = 0, all3 = 0\<rparr>"

definition conn_zero :: ip_vs_conn where
  "conn_zero = \<lparr>af = AF_INET, protocol = 6, caddr = addr_zero, vaddr = addr_zero,
     laddr = addr_zero, daddr = addr_zero, cport = 0, vport = 0, lport = 0, dport = 0,
     fwd_method = 0, flags = {}, state = IP_VS_TCP_S_NONE, old_state = IP_VS_TCP_S_NONE, timeout = 0,
     cp_dest = None, app = None,
     fnat_seq = \<lparr>init_seq = 0, delta = 0, fdata_seq = 0\<rparr>,
     syn_proxy_seq = \<lparr>init_seq = 0, delta = 0, fdata_seq = 0\<rparr>,
     rs_end_seq = 0, rs_ack_seq = 0, ack_skb = []\<rparr>"

definition pp_zero :: ip_vs_protocol where
  "pp_zero = \<lparr>timeout_table = (\<lambda>_. 0), csum_check = None\<rparr>"

definition iphdr_zero :: iphdr where
  "iphdr_zero = \<lparr>ip_ihl = 5, ip_version = 4, ip_tos = 0, ip_tot_len = htons 40, ip_id = 0,
     ip_frag_off = 0, ip_ttl = 64, ip_protocol = 6, ip_check = 0, ip_saddr = 0, ip_daddr = 0\<rparr>"

definition ipv6hdr_zero :: ipv6hdr where
  "ipv6hdr_zero = \<lparr>ip6_priority = 0, ip6_version = 6, ip6_flow_lbl = [0, 0, 0],
     ip6_payload_len = 0, ip6_nexthdr = 6, ip6_hop_limit = 64,
     ip6_saddr = addr_zero, ip6_daddr = addr_zero\<rparr>"

definition skb_zero :: sk_buff where
  "skb_zero = \<lparr>len = 40, mark = 0, ip_summed = CHECKSUM_NONE, csum = 0, dst_mtu = 1500,
     iph = iphdr_zero, ip_options = [], ipv6h = ipv6hdr_zero, th = tcphdr_zero\<lparr>doff := 5\<rparr>,
     data = (\<lambda>_. 0)\<rparr>"

definition sysctl_on :: sysctl where
  "sysctl_on = \<lparr>sysctl_ip_vs_tcp_drop_entry = 1, sysctl_ip_vs_mss_adjust_entry = 1,
     sysctl_ip_vs_timestamp_remove_entry = 1, sysctl_ip_vs_toa_entry = 1,
     sysctl_ip_vs_conn_expire_tcp_rst = 1, sysctl_ip_vs_conn_reused_entry = 1\<rparr>"

definition svc_zero :: ip_vs_service where
  "svc_zero = \<lparr>svc_af = AF_INET, svc_protocol = 6, svc_addr = addr_zero, svc_port = htons 80,
     svc_fwmark = 0\<rparr>"

definition fw_zero :: ip_vs_framework where
  "fw_zero = \<lparr>ip_vs_synproxy_ack_rcv = (\<lambda>_ _ _ _. None),
     ip_vs_service_get = (\<lambda>_ _ _ _ p. if p = htons 80 then Some svc_zero else None),
     ip_vs_lookup_vip = (\<lambda>_ _ _. Some svc_zero),
     ip_vs_todrop = False,
     ip_vs_schedule = (\<lambda>_ _. Some conn_zero),
     ip_vs_leave = (\<lambda>_ _. 1),
     secure_tcp_sequence_number = (\<lambda>_ _ _ _. 0x1000),
     secure_tcpv6_sequence_number = (\<lambda>_ _ _ _. 0x2000),
     ip_vs_synproxy_snat = (\<lambda>tcph _. Some (seq tcph)),
     ip_vs_synproxy_dnat = (\<lambda>tcph m _. (ack_seq tcph, m)),
     ip_vs_app_pkt_in = (\<lambda>cp skb. Some (cp, skb)),
     ip_vs_app_pkt_out = (\<lambda>cp skb. Some (cp, skb)),
     skb_make_writable = (\<lambda>skb n. n \<le> unat (len skb))\<rparr>"

text \<open>A flow whose recorded acknowledgement sits just below the wrap of the sequence
  space, and the same flow after two further segments from the real server.\<close>

definition cp_wrap0 :: ip_vs_conn where
  "cp_wrap0 = conn_zero\<lparr>rs_ack_seq := htonl 0xFFFFFFF0\<rparr>"

definition cp_wrap1 :: ip_vs_conn where
  "cp_wrap1 = tcp_save_out_seq sysctl_on skb_zero cp_wrap0
                (tcphdr_zero\<lparr>ack := True, ack_seq := htonl 0\<rparr>) 20"

definition cp_wrap2 :: ip_vs_conn where
  "cp_wrap2 = tcp_save_out_seq sysctl_on skb_zero cp_wrap1
                (tcphdr_zero\<lparr>ack := True, ack_seq := htonl 0xFFFFFF00\<rparr>) 20"

definition app_ftp :: ip_vs_app where
  "app_ftp = \<lparr>app_name = ''ftp'', port = htons 21\<rparr>"

text \<open>The invariant of the helper table: sixteen buckets, every helper in the bucket of
  its port, no port twice in a bucket.\<close>

definition apps_wf :: "tcp_app_tab \<Rightarrow> bool" where
  "apps_wf tab \<longleftrightarrow>
     length (tcp_apps tab) = TCP_APP_TAB_SIZE \<and>
     (\<forall>h < TCP_APP_TAB_SIZE. distinct (map port (tcp_apps tab ! h)) \<and>
        (\<forall>i \<in> set (tcp_apps tab ! h). unat (tcp_app_hashkey (port i)) = h))"


definition skb_syn80 :: sk_buff where
  "skb_syn80 = skb_zero\<lparr>th := tcphdr_zero\<lparr>doff := 5, syn := True, dest := htons 80\<rparr>\<rparr>"

definition skb_ack80 :: sk_buff where
  "skb_ack80 = skb_zero\<lparr>th := tcphdr_zero\<lparr>doff := 5, ack := True, dest := htons 80\<rparr>\<rparr>"

text \<open>Two option areas from the real server: four bytes ending in the kind byte of an
  option whose size byte lies behind the area, and twelve bytes carrying one SACK block
  with the edges 1000 and 2460. A flow with FullNAT delta 1.\<close>

definition tcph_opts4 :: tcphdr where
  "tcph_opts4 = tcphdr_zero\<lparr>doff := 6, ack := True\<rparr>"

definition opts_short :: mem where
  "opts_short = mem_of [1, 1, 1, 2]"

definition tcph_opts12 :: tcphdr where
  "tcph_opts12 = tcphdr_zero\<lparr>doff := 8, ack := True\<rparr>"

definition opts_sack :: mem where
  "opts_sack = mem_of [1, 1, 5, 10, 0, 0, 0x03, 0xE8, 0, 0, 0x09, 0x9C]"

definition cp_delta1 :: ip_vs_conn where
  "cp_delta1 = conn_zero\<lparr>fnat_seq := \<lparr>init_seq = 1001, delta = 1, fdata_seq = 1001\<rparr>\<rparr>"

text \<open>An established FullNAT flow over IPv4 with delta \<open>0x100\<close>, and a segment with
  sequence number 100 that acknowledges \<open>0x1200\<close>.\<close>

definition cp_est :: ip_vs_conn where
  "cp_est = conn_zero\<lparr>state := IP_VS_TCP_S_ESTABLISHED, fwd_method := IP_VS_CONN_F_FULLNAT,
                       rs_ack_seq := htonl 0x2000, rs_end_seq := htonl 0x3000,
                       fnat_seq := \<lparr>init_seq = 0x1000, delta = 0x100, fdata_seq = 0xF01\<rparr>\<rparr>"

definition skb_seq100 :: sk_buff where
  "skb_seq100 = skb_zero\<lparr>th := tcphdr_zero\<lparr>doff := 5, ack := True, seq := htonl 100,
                                                 ack_seq := htonl 0x1200\<rparr>\<rparr>"

text \<open>What is asked of a synthesised reset over IPv4: the RST bit, a zero \<open>ack_seq\<close>,
  a header of five words, an IP header that sums to zero and a TCP checksum that
  \<open>tcp_csum_check\<close> accepts.\<close>

definition rst_wellformed :: "sk_buff \<Rightarrow> bool" where
  "rst_wellformed skb \<longleftrightarrow>
     rst (th skb) \<and> ack_seq (th skb) = 0 \<and> doff (th skb) = 5 \<and>
     ip_fast_csum (iph skb) (ip_options skb) = 0 \<and> fst (tcp_csum_check AF_INET skb)"









section \<open>Properties\<close>

subsection \<open>Byte order\<close>

lemma swab32_masks:
  "(0x000000ff :: 32 word) = mask 8" "(0x0000ff00 :: 32 word) = push_bit 8 (mask 8)"
  "(0x00ff0000 :: 32 word) = push_bit 16 (mask 8)" "(0xff000000 :: 32 word) = push_bit 24 (mask 8)"
  by (simp_all add: mask_eq_exp_minus_1)

lemma swab16_masks:
  "(0x00ff :: 16 word) = mask 8" "(0xff00 :: 16 word) = push_bit 8 (mask 8)"
  by (simp_all add: mask_eq_exp_minus_1)

lemma bit_swab32:
  "bit (swab32 x) n \<longleftrightarrow>
     (if n < 8 then bit x (n + 24) else if n < 16 then bit x (n + 8)
      else if n < 24 then bit x (n - 8) else if n < 32 then bit x (n - 24) else False)"
  unfolding swab32_def swab32_masks
  apply (simp add: bit_simps)
  apply (auto dest: bit_imp_le_length simp: add.commute)
  done

lemma bit_swab16:
  "bit (swab16 x) n \<longleftrightarrow>
     (if n < 8 then bit x (n + 8) else if n < 16 then bit x (n - 8) else False)"
  unfolding swab16_def swab16_masks
  apply (simp add: bit_simps)
  apply (auto dest: bit_imp_le_length simp: add.commute)
  done

lemma swab32_swab32: "swab32 (swab32 x) = x"
proof (rule bit_word_eqI)
  fix n assume "n < LENGTH(32)"
  then have n: "n < 32" by simp
  consider "n < 8" | "8 \<le> n" "n < 16" | "16 \<le> n" "n < 24" | "24 \<le> n" "n < 32"
    using n by linarith
  then show "bit (swab32 (swab32 x)) n = bit x n"
    by cases (auto simp add: bit_swab32)
qed

lemma swab16_swab16: "swab16 (swab16 x) = x"
proof (rule bit_word_eqI)
  fix n assume "n < LENGTH(16)"
  then have n: "n < 16" by simp
  consider "n < 8" | "8 \<le> n" "n < 16"
    using n by linarith
  then show "bit (swab16 (swab16 x)) n = bit x n"
    by cases (auto simp add: bit_swab16)
qed

lemma ntohl_htonl [simp]: "ntohl (htonl x) = x"
  by (simp add: ntohl_def htonl_def swab32_swab32)

lemma htonl_ntohl [simp]: "htonl (ntohl x) = x"
  by (simp add: ntohl_def htonl_def swab32_swab32)

lemma ntohs_htons [simp]: "ntohs (htons x) = x"
  by (simp add: ntohs_def htons_def swab16_swab16)

lemma htons_ntohs [simp]: "htons (ntohs x) = x"
  by (simp add: ntohs_def htons_def swab16_swab16)

subsection \<open>Flag classes of the state machine\<close>

lemma set_tcp_state_state:
  "state (set_tcp_state tab pp cp dir tcph) =
     (if tcp_state_idx tcph < 0 then IP_VS_TCP_S_CLOSE
      else tab ! ((if IP_VS_CONN_F_NOOUTPUT \<in> flags cp \<and> tcp_state_off dir \<noteq> TCP_DIR_OUTPUT
                   then TCP_DIR_INPUT_ONLY else tcp_state_off dir) + nat (tcp_state_idx tcph))
               ! state_num (state cp))"
  by (simp add: set_tcp_state_def Let_def split: option.splits)

text \<open>
  Claim C3, as the code has it: the flag class that indexes the transition tables is chosen
  in the order RST, SYN, FIN, ACK (RST first: a segment with RST set is classified RST
  whatever else it carries, and SYN wins only when RST is clear); a segment with none of
  the four flags moves the flow to CLOSE, and any other segment moves it to the table entry
  of its class, direction and current state.
\<close>

theorem tcp_state_idx_priority:
  "(rst tcph \<longrightarrow> tcp_state_idx tcph = 3) \<and>
   (\<not> rst tcph \<and> syn tcph \<longrightarrow> tcp_state_idx tcph = 0) \<and>
   (\<not> rst tcph \<and> \<not> syn tcph \<and> fin tcph \<longrightarrow> tcp_state_idx tcph = 1) \<and>
   (\<not> rst tcph \<and> \<not> syn tcph \<and> \<not> fin tcph \<and> ack tcph \<longrightarrow> tcp_state_idx tcph = 2) \<and>
   (\<not> rst tcph \<and> \<not> syn tcph \<and> \<not> fin tcph \<and> \<not> ack tcph \<longrightarrow>
      state (set_tcp_state tab pp cp dir tcph) = IP_VS_TCP_S_CLOSE) \<and>
   (rst tcph \<or> syn tcph \<or> fin tcph \<or> ack tcph \<longrightarrow>
      state (set_tcp_state tab pp cp dir tcph) =
        tab ! ((if IP_VS_CONN_F_NOOUTPUT \<in> flags cp \<and> dir \<noteq> IP_VS_DIR_OUTPUT
                then TCP_DIR_INPUT_ONLY else tcp_state_off dir) + nat (tcp_state_idx tcph))
            ! state_num (state cp))"
  by (cases dir) (auto simp add: set_tcp_state_state tcp_state_idx_def TCP_DIR_INPUT_def TCP_DIR_OUTPUT_def TCP_DIR_INPUT_ONLY_def)

text \<open>The priority theorem at five segments, one per case, on the normal table.\<close>

theorem tcp_state_idx_priority_witness:
  "tcp_state_idx (tcphdr_zero\<lparr>rst := True, syn := True\<rparr>) = 3 \<and>
   tcp_state_idx (tcphdr_zero\<lparr>syn := True, fin := True, ack := True\<rparr>) = 0 \<and>
   tcp_state_idx (tcphdr_zero\<lparr>fin := True, ack := True\<rparr>) = 1 \<and>
   tcp_state_idx (tcphdr_zero\<lparr>ack := True\<rparr>) = 2 \<and>
   state (set_tcp_state tcp_states pp_zero (conn_zero\<lparr>state := IP_VS_TCP_S_ESTABLISHED\<rparr>)
            IP_VS_DIR_INPUT tcphdr_zero) = IP_VS_TCP_S_CLOSE \<and>
   state (set_tcp_state tcp_states pp_zero conn_zero IP_VS_DIR_INPUT (tcphdr_zero\<lparr>syn := True\<rparr>))
     = IP_VS_TCP_S_SYN_RECV"
  using tcp_state_idx_priority [of "tcphdr_zero\<lparr>rst := True, syn := True\<rparr>"]
        tcp_state_idx_priority [of "tcphdr_zero\<lparr>syn := True, fin := True, ack := True\<rparr>"]
        tcp_state_idx_priority [of "tcphdr_zero\<lparr>fin := True, ack := True\<rparr>"]
        tcp_state_idx_priority [of "tcphdr_zero\<lparr>ack := True\<rparr>"]
        tcp_state_idx_priority [of tcphdr_zero tcp_states pp_zero
           "conn_zero\<lparr>state := IP_VS_TCP_S_ESTABLISHED\<rparr>" IP_VS_DIR_INPUT]
        tcp_state_idx_priority [of "tcphdr_zero\<lparr>syn := True\<rparr>" tcp_states pp_zero conn_zero IP_VS_DIR_INPUT]
  by (simp add: tcphdr_zero_def conn_zero_def tcp_states_def TCP_DIR_INPUT_def)

text \<open>A segment with SYN and RST set falls in class 3 (RST), not class 0 (SYN): from
  ESTABLISHED on the input side it closes the flow, where the SYN row would have kept it
  established.\<close>

theorem syn_rst_is_rst_class:
  "syn (tcphdr_zero\<lparr>syn := True, rst := True\<rparr>) \<and>
   tcp_state_idx (tcphdr_zero\<lparr>syn := True, rst := True\<rparr>) = 3 \<and>
   tcp_state_idx (tcphdr_zero\<lparr>syn := True, rst := True\<rparr>) \<noteq> 0 \<and>
   state (set_tcp_state tcp_states pp_zero (conn_zero\<lparr>state := IP_VS_TCP_S_ESTABLISHED\<rparr>)
            IP_VS_DIR_INPUT (tcphdr_zero\<lparr>syn := True, rst := True\<rparr>)) = IP_VS_TCP_S_CLOSE \<and>
   tcp_states ! (tcp_state_off IP_VS_DIR_INPUT + 0) ! state_num IP_VS_TCP_S_ESTABLISHED
     = IP_VS_TCP_S_ESTABLISHED"
  by (simp add: set_tcp_state_state tcp_state_idx_def tcphdr_zero_def conn_zero_def tcp_states_def
        TCP_DIR_INPUT_def TCP_DIR_OUTPUT_def TCP_DIR_INPUT_ONLY_def)

subsection \<open>The reverse-path record\<close>

lemma before_irrefl: "\<not> before x x"
  by (simp add: before_def)

lemma htonl_vals: "htonl 0 = 0" "htonl 0xFFFFFFF0 = 0xF0FFFFFF" "htonl 0xFFFFFF00 = 0x00FFFFFF"
  "ntohl 0 = 0" "ntohl 0xF0FFFFFF = 0xFFFFFFF0" "ntohl 0x00FFFFFF = 0xFFFFFF00"
  by (simp_all add: htonl_def ntohl_def swab32_def)

text \<open>
  Claim C8, as the code has it: while \<open>conn_expire_tcp_rst\<close> is enabled, a non-RST segment
  from the real server replaces the stored \<open>rs_ack_seq\<close> exactly when its \<open>ack_seq\<close> is
  not before the stored value (mod \<open>2^32\<close>) or the stored value is zero; hence a non-zero
  stored value never moves backward. A stored zero is overwritten by whatever the next
  segment acknowledges.
\<close>

theorem tcp_save_out_seq_no_regress:
  "sysctl_ip_vs_conn_expire_tcp_rst ctl \<noteq> 0 \<Longrightarrow> \<not> rst tcph \<Longrightarrow>
     (rs_ack_seq (tcp_save_out_seq ctl skb cp tcph ihl) \<noteq> rs_ack_seq cp \<longrightarrow>
        rs_ack_seq (tcp_save_out_seq ctl skb cp tcph ihl) = ack_seq tcph \<and>
        (\<not> before (ntohl (ack_seq tcph)) (ntohl (rs_ack_seq cp)) \<or> rs_ack_seq cp = 0)) \<and>
     (\<not> before (ntohl (ack_seq tcph)) (ntohl (rs_ack_seq cp)) \<or> rs_ack_seq cp = 0 \<longrightarrow>
        rs_ack_seq (tcp_save_out_seq ctl skb cp tcph ihl) = ack_seq tcph) \<and>
     (rs_ack_seq cp \<noteq> 0 \<longrightarrow>
        \<not> before (ntohl (rs_ack_seq (tcp_save_out_seq ctl skb cp tcph ihl))) (ntohl (rs_ack_seq cp)))"
  by (auto simp add: tcp_save_out_seq_def before_irrefl)

text \<open>The theorem on a flow with a non-zero record and a segment that acknowledges
  past the wrap.\<close>

theorem tcp_save_out_seq_no_regress_witness:
  "sysctl_ip_vs_conn_expire_tcp_rst sysctl_on \<noteq> 0 \<and> \<not> rst (tcphdr_zero\<lparr>ack := True, ack_seq := htonl 0x10\<rparr>) \<and>
   rs_ack_seq cp_wrap0 \<noteq> 0 \<and>
   rs_ack_seq (tcp_save_out_seq sysctl_on skb_zero cp_wrap0 (tcphdr_zero\<lparr>ack := True, ack_seq := htonl 0x10\<rparr>) 20)
     = htonl 0x10 \<and>
   \<not> before (ntohl (htonl 0x10)) (ntohl (rs_ack_seq cp_wrap0))"
proof -
  have a: "sysctl_ip_vs_conn_expire_tcp_rst sysctl_on \<noteq> 0" by (simp add: sysctl_on_def)
  have b: "\<not> rst (tcphdr_zero\<lparr>ack := True, ack_seq := htonl 0x10\<rparr>)" by (simp add: tcphdr_zero_def)
  have c: "rs_ack_seq cp_wrap0 \<noteq> 0" by (simp add: cp_wrap0_def htonl_vals)
  have d: "\<not> before (ntohl (htonl 0x10)) (ntohl (rs_ack_seq cp_wrap0))"
    by (simp add: cp_wrap0_def before_def)
  show ?thesis
    using a b c d tcp_save_out_seq_no_regress [OF a b, of skb_zero cp_wrap0 20] by simp
qed

text \<open>Three values of one flow's record: \<open>0xFFFFFFF0\<close>, then \<open>0\<close> (accepted, it is
  after the first across the wrap), then \<open>0xFFFFFF00\<close> (accepted because the record is
  zero), which is before both.\<close>

theorem rs_ack_seq_moves_backward:
  "ntohl (rs_ack_seq cp_wrap0) = 0xFFFFFFF0 \<and>
   ntohl (rs_ack_seq cp_wrap1) = 0 \<and>
   ntohl (rs_ack_seq cp_wrap2) = 0xFFFFFF00 \<and>
   before (ntohl (rs_ack_seq cp_wrap2)) (ntohl (rs_ack_seq cp_wrap1)) \<and>
   before (ntohl (rs_ack_seq cp_wrap2)) (ntohl (rs_ack_seq cp_wrap0))"
  by (simp add: cp_wrap2_def cp_wrap1_def cp_wrap0_def tcp_save_out_seq_def sysctl_on_def
      tcphdr_zero_def conn_zero_def htonl_vals before_def)

subsection \<open>Initial sequence of a FullNAT flow\<close>



subsection \<open>Registration of application helpers\<close>

lemma tcp_app_hashkey_less: "unat (tcp_app_hashkey p) < TCP_APP_TAB_SIZE"
proof -
  have "tcp_app_hashkey p \<le> 15"
    unfolding tcp_app_hashkey_def TCP_APP_TAB_MASK_def TCP_APP_TAB_SIZE_def TCP_APP_TAB_BITS_def
    by (simp add: word_and_le1)
  then have "unat (tcp_app_hashkey p) \<le> 15"
    by (simp add: word_le_nat_alt)
  then show ?thesis
    by (simp add: TCP_APP_TAB_SIZE_def TCP_APP_TAB_BITS_def)
qed

lemma apps_wf_init: "apps_wf ip_vs_tcp_init"
  by (simp add: apps_wf_def ip_vs_tcp_init_def)

lemma apps_wf_register:
  assumes "apps_wf tab"
  shows "apps_wf (snd (tcp_register_app tab inc))"
proof (cases "list_ex (\<lambda>i. port i = port inc) (tcp_apps tab ! unat (tcp_app_hashkey (port inc)))")
  case True
  then show ?thesis using assms by (simp add: tcp_register_app_def Let_def)
next
  case False
  let ?h = "unat (tcp_app_hashkey (port inc))"
  have h: "?h < TCP_APP_TAB_SIZE" by (rule tcp_app_hashkey_less)
  have new: "port inc \<notin> port ` set (tcp_apps tab ! ?h)"
    using False by (auto simp add: list_ex_iff)
  have eq: "snd (tcp_register_app tab inc)
            = tab\<lparr>tcp_apps := (tcp_apps tab)[?h := inc # tcp_apps tab ! ?h], appcnt := appcnt tab + 1\<rparr>"
    using False by (simp add: tcp_register_app_def Let_def)
  show ?thesis
    unfolding eq apps_wf_def
    using assms h new
    by (auto simp add: apps_wf_def nth_list_update)
qed

lemma distinct_map_remove1: "distinct (map f xs) \<Longrightarrow> distinct (map f (remove1 x xs))"
proof (induction xs)
  case Nil
  then show ?case by simp
next
  case (Cons a xs)
  have "set (remove1 x xs) \<subseteq> set xs" by (rule set_remove1_subset)
  with Cons show ?case by auto
qed

lemma apps_wf_unregister:
  assumes "apps_wf tab"
  shows "apps_wf (tcp_unregister_app tab inc)"
proof -
  have "\<And>h i. i \<in> set (remove1 inc (tcp_apps tab ! h)) \<Longrightarrow> i \<in> set (tcp_apps tab ! h)"
    using set_remove1_subset by fastforce
  then show ?thesis
    using assms
    by (auto simp add: apps_wf_def tcp_unregister_app_def distinct_map_remove1)
qed

lemma apps_reachable_wf: "apps_reachable tab \<Longrightarrow> apps_wf tab"
  by (induction rule: apps_reachable.induct)
     (simp_all add: apps_wf_init apps_wf_register apps_wf_unregister)

lemma distinct_ports_concat:
  "(\<forall>h < length bs. distinct (map port (bs ! h)) \<and>
        (\<forall>i \<in> set (bs ! h). unat (tcp_app_hashkey (port i)) = h))
   \<Longrightarrow> distinct (map port (concat bs))"
proof (induction bs rule: rev_induct)
  case Nil
  then show ?case by simp
next
  case (snoc b bs)
  have prem: "\<forall>h < length bs. distinct (map port (bs ! h)) \<and>
        (\<forall>i \<in> set (bs ! h). unat (tcp_app_hashkey (port i)) = h)"
  proof (intro allI impI)
    fix h assume "h < length bs"
    with snoc.prems [rule_format, of h] show "distinct (map port (bs ! h)) \<and>
        (\<forall>i \<in> set (bs ! h). unat (tcp_app_hashkey (port i)) = h)"
      by (simp add: nth_append)
  qed
  have last: "distinct (map port b)" "\<forall>i \<in> set b. unat (tcp_app_hashkey (port i)) = length bs"
    using snoc.prems [rule_format, of "length bs"] by simp_all
  have low: "\<forall>i \<in> set (concat bs). unat (tcp_app_hashkey (port i)) < length bs"
  proof
    fix i assume "i \<in> set (concat bs)"
    then obtain b where "b \<in> set bs" "i \<in> set b" by auto
    then obtain h where "h < length bs" "i \<in> set (bs ! h)"
      by (metis in_set_conv_nth)
    with prem show "unat (tcp_app_hashkey (port i)) < length bs" by auto
  qed
  have "port ` set (concat bs) \<inter> port ` set b = {}"
    using low last(2) by fastforce
  with snoc.IH [OF prem] last(1) show ?case by simp
qed

lemma apps_wf_distinct: "apps_wf tab \<Longrightarrow> distinct (map port (concat (tcp_apps tab)))"
  by (rule distinct_ports_concat) (simp add: apps_wf_def)

lemma apps_wf_duplicate:
  assumes "apps_wf tab" "port inc \<in> port ` set (concat (tcp_apps tab))"
  shows "tcp_register_app tab inc = (- EEXIST, tab)"
proof -
  from assms(2) obtain i where i: "i \<in> set (concat (tcp_apps tab))" "port i = port inc"
    by (metis imageE)
  from i(1) obtain b where "b \<in> set (tcp_apps tab)" "i \<in> set b" by auto
  then obtain h where h: "h < length (tcp_apps tab)" "i \<in> set (tcp_apps tab ! h)"
    by (metis in_set_conv_nth)
  with assms(1) have "unat (tcp_app_hashkey (port i)) = h"
    by (simp add: apps_wf_def)
  with i h have "list_ex (\<lambda>j. port j = port inc) (tcp_apps tab ! unat (tcp_app_hashkey (port inc)))"
    by (auto simp add: list_ex_iff)
  then show ?thesis by (simp add: tcp_register_app_def Let_def)
qed

text \<open>
  Claim C10: in every table the module can reach, registering a helper on a port that
  already has one returns \<open>-EEXIST\<close> and leaves the bucket array and the helper count as
  they were; and no port occurs twice in the table.
\<close>

theorem tcp_register_app_eexist:
  "apps_reachable tab \<Longrightarrow>
     (port inc \<in> port ` set (concat (tcp_apps tab)) \<longrightarrow> tcp_register_app tab inc = (- EEXIST, tab)) \<and>
     distinct (map port (concat (tcp_apps tab)))"
  by (simp add: apps_reachable_wf apps_wf_distinct apps_wf_duplicate)

lemma app_ftp_registered:
  "port app_ftp \<in> port ` set (concat (tcp_apps (snd (tcp_register_app ip_vs_tcp_init app_ftp))))"
  by code_simp

text \<open>The FTP helper registered twice on a fresh table: 0, then \<open>-EEXIST\<close>.\<close>

theorem tcp_register_app_eexist_witness:
  "apps_reachable (snd (tcp_register_app ip_vs_tcp_init app_ftp)) \<and>
   port app_ftp \<in> port ` set (concat (tcp_apps (snd (tcp_register_app ip_vs_tcp_init app_ftp)))) \<and>
   tcp_register_app (snd (tcp_register_app ip_vs_tcp_init app_ftp)) app_ftp
     = (- EEXIST, snd (tcp_register_app ip_vs_tcp_init app_ftp)) \<and>
   fst (tcp_register_app ip_vs_tcp_init app_ftp) = 0"
proof -
  have r: "apps_reachable (snd (tcp_register_app ip_vs_tcp_init app_ftp))"
    by (rule apps_reachable.register) (rule apps_reachable.init)
  have z: "fst (tcp_register_app ip_vs_tcp_init app_ftp) = 0"
    by code_simp
  show ?thesis
    using r z app_ftp_registered tcp_register_app_eexist [OF r, of app_ftp] by simp
qed

subsection \<open>The scheduling gate\<close>

text \<open>
  Claim C9: for a segment with no matching flow that the SYN-proxy ACK hook declines, the
  flow handed back by \<open>tcp_conn_schedule\<close> differs from the one passed in only when the
  segment is a pure SYN (SYN set; ACK, FIN, RST clear) and \<open>ip_vs_service_get\<close> finds a
  service for the address family, mark, protocol, destination address and destination
  port, and then it is what the scheduler returned; for every other such segment the
  flow is untouched and the result does not depend on the scheduler at all.
\<close>

theorem tcp_conn_schedule_pure_syn_only:
  assumes hdr: "skb_header_pointer_tcp skb (iphdr_len (ip_vs_fill_iphdr family skb)) = Some tcph"
    and decl: "ip_vs_synproxy_ack_rcv fw family skb tcph (ip_vs_fill_iphdr family skb) = None"
  shows
   "(fst (snd (snd (tcp_conn_schedule ctl fw mib family skb verdict0 cpp0))) \<noteq> cpp0 \<longrightarrow>
       syn tcph \<and> \<not> ack tcph \<and> \<not> fin tcph \<and> \<not> rst tcph \<and>
       (\<exists>svc. ip_vs_service_get fw family (mark skb) (iphdr_protocol (ip_vs_fill_iphdr family skb))
                 (iphdr_daddr (ip_vs_fill_iphdr family skb)) (dest tcph) = Some svc \<and>
              \<not> ip_vs_todrop fw \<and>
              fst (snd (snd (tcp_conn_schedule ctl fw mib family skb verdict0 cpp0)))
                = ip_vs_schedule fw svc skb)) \<and>
    (\<not> (syn tcph \<and> \<not> ack tcph \<and> \<not> fin tcph \<and> \<not> rst tcph \<and>
         ip_vs_service_get fw family (mark skb) (iphdr_protocol (ip_vs_fill_iphdr family skb))
                 (iphdr_daddr (ip_vs_fill_iphdr family skb)) (dest tcph) \<noteq> None) \<longrightarrow>
       fst (snd (snd (tcp_conn_schedule ctl fw mib family skb verdict0 cpp0))) = cpp0 \<and>
       tcp_conn_schedule ctl (fw\<lparr>ip_vs_schedule := sched'\<rparr>) mib family skb verdict0 cpp0
         = tcp_conn_schedule ctl fw mib family skb verdict0 cpp0) \<and>
    (syn tcph \<and> \<not> ack tcph \<and> \<not> fin tcph \<and> \<not> rst tcph \<longrightarrow>
       (\<forall>svc. ip_vs_service_get fw family (mark skb) (iphdr_protocol (ip_vs_fill_iphdr family skb))
                 (iphdr_daddr (ip_vs_fill_iphdr family skb)) (dest tcph) = Some svc \<and>
               \<not> ip_vs_todrop fw \<longrightarrow>
          fst (snd (snd (tcp_conn_schedule ctl fw mib family skb verdict0 cpp0)))
            = ip_vs_schedule fw svc skb))"
  using hdr decl
  by (auto simp add: tcp_conn_schedule_def Let_def split: option.splits)

text \<open>A pure SYN to port 80 gets the scheduler's flow; a bare ACK to port 80 gets none.\<close>

theorem tcp_conn_schedule_pure_syn_only_witness:
  "skb_header_pointer_tcp skb_syn80 (iphdr_len (ip_vs_fill_iphdr AF_INET skb_syn80)) = Some (th skb_syn80) \<and>
   ip_vs_synproxy_ack_rcv fw_zero AF_INET skb_syn80 (th skb_syn80) (ip_vs_fill_iphdr AF_INET skb_syn80) = None \<and>
   fst (snd (snd (tcp_conn_schedule sysctl_on fw_zero (\<lambda>_. 0) AF_INET skb_syn80 1 None))) = Some conn_zero \<and>
   skb_header_pointer_tcp skb_ack80 (iphdr_len (ip_vs_fill_iphdr AF_INET skb_ack80)) = Some (th skb_ack80) \<and>
   ip_vs_synproxy_ack_rcv fw_zero AF_INET skb_ack80 (th skb_ack80) (ip_vs_fill_iphdr AF_INET skb_ack80) = None \<and>
   fst (snd (snd (tcp_conn_schedule sysctl_on fw_zero (\<lambda>_. 0) AF_INET skb_ack80 1 None))) = None"
proof -
  have h1: "skb_header_pointer_tcp skb_syn80 (iphdr_len (ip_vs_fill_iphdr AF_INET skb_syn80)) = Some (th skb_syn80)"
    by (simp add: skb_header_pointer_tcp_def ip_vs_fill_iphdr_def skb_syn80_def skb_zero_def iphdr_zero_def)
  have d1: "ip_vs_synproxy_ack_rcv fw_zero AF_INET skb_syn80 (th skb_syn80) (ip_vs_fill_iphdr AF_INET skb_syn80) = None"
    by (simp add: fw_zero_def)
  have h2: "skb_header_pointer_tcp skb_ack80 (iphdr_len (ip_vs_fill_iphdr AF_INET skb_ack80)) = Some (th skb_ack80)"
    by (simp add: skb_header_pointer_tcp_def ip_vs_fill_iphdr_def skb_ack80_def skb_zero_def iphdr_zero_def)
  have d2: "ip_vs_synproxy_ack_rcv fw_zero AF_INET skb_ack80 (th skb_ack80) (ip_vs_fill_iphdr AF_INET skb_ack80) = None"
    by (simp add: fw_zero_def)
  have f1: "th skb_syn80 = tcphdr_zero\<lparr>doff := 5, syn := True, dest := htons 80\<rparr>"
    by (simp add: skb_syn80_def)
  have f2: "th skb_ack80 = tcphdr_zero\<lparr>doff := 5, ack := True, dest := htons 80\<rparr>"
    by (simp add: skb_ack80_def)
  show ?thesis
    using h1 d1 h2 d2
      tcp_conn_schedule_pure_syn_only [OF h1 d1, of sysctl_on "\<lambda>_. 0" 1 None]
      tcp_conn_schedule_pure_syn_only [OF h2 d2, of sysctl_on "\<lambda>_. 0" 1 None]
    by (simp add: f1 f2 fw_zero_def tcphdr_zero_def)
qed

subsection \<open>The option walkers and the SACK rewrite\<close>

text \<open>
  Claim C4, at two option areas. With four option bytes \<open>01 01 01 02\<close> each of the
  three walkers dereferences the offsets 0 to 4: the size byte of the last option is
  read at offset 4, one byte behind the area. With twelve option bytes holding one SACK
  block, the SACK rewrite dereferences the offsets 20 to 23, eight bytes behind the area.
  (That every walk ends is the termination proof of each loop.)
\<close>

theorem option_walkers_read_past_region:
  "tcp_optlen tcph_opts4 = 4 \<and>
   snd (tcp_opt_adjust_mss sysctl_on tcph_opts4 opts_short) = [0, 1, 2, 3, 4] \<and>
   snd (tcp_opt_remove_timestamp sysctl_on tcph_opts4 opts_short) = [0, 1, 2, 3, 4] \<and>
   map_option (\<lambda>r. snd (snd r)) (tcp_out_adjust_seq fw_zero cp_delta1 tcph_opts4 opts_short)
     = Some [0, 1, 2, 3, 4] \<and>
   tcp_optlen tcph_opts12 = 12 \<and>
   map_option (\<lambda>r. snd (snd r)) (tcp_out_adjust_seq fw_zero cp_delta1 tcph_opts12 opts_sack)
     = Some [0, 1, 2, 3, 4, 5, 6, 7, 20, 21, 22, 23]"
  by code_simp

text \<open>
  Claim C1, at a segment carrying one SACK block \<open>[1000, 2460]\<close> on a flow with delta 1:
  the left edge leaves as 999, the right edge leaves as 2460, unchanged, and the four
  bytes at offset 20, which belong to the payload, have been decremented instead.
\<close>

theorem sack_right_edge_not_rewritten:
  "tcp_out_adjust_seq fw_zero cp_delta1 tcph_opts12 opts_sack \<noteq> None \<and>
   delta (fnat_seq cp_delta1) = 1 \<and>
   ntohl (load32 opts_sack 4) = 1000 \<and>
   ntohl (load32 opts_sack 8) = 2460 \<and>
   ntohl (load32 (fst (snd (the (tcp_out_adjust_seq fw_zero cp_delta1 tcph_opts12 opts_sack)))) 4) = 999 \<and>
   ntohl (load32 (fst (snd (the (tcp_out_adjust_seq fw_zero cp_delta1 tcph_opts12 opts_sack)))) 8) = 2460 \<and>
   load32 opts_sack 20 = 0 \<and>
   load32 (fst (snd (the (tcp_out_adjust_seq fw_zero cp_delta1 tcph_opts12 opts_sack)))) 20 = 0xFFFFFFFF"
  by code_simp

subsection \<open>Sequence translation\<close>

lemma tcp_full_csum_fields:
  "seq (th (tcp_full_csum cp sa da off skb)) = seq (th skb) \<and>
   ack_seq (th (tcp_full_csum cp sa da off skb)) = ack_seq (th skb) \<and>
   doff (th (tcp_full_csum cp sa da off skb)) = doff (th skb) \<and>
   len (tcp_full_csum cp sa da off skb) = len skb \<and>
   data (tcp_full_csum cp sa da off skb) = data skb"
  by (simp add: tcp_full_csum_def Let_def)

lemma tcp_opt_add_toa_seq:
  "seq (th (fst (tcp_opt_add_toa opc copied mib cp skb))) = seq (th skb) \<and>
   fnat_seq (fst (snd (tcp_opt_add_toa opc copied mib cp skb))) = fnat_seq cp"
  by (simp add: tcp_opt_add_toa_def Let_def)

lemma tcp_in_adjust_seq_seq:
  "ntohl (seq (fst (tcp_in_adjust_seq fw cp tcph m))) = ntohl (seq tcph) + delta (fnat_seq cp)"
  by (simp add: tcp_in_adjust_seq_def ip_vs_synproxy_dnat_handler_def)

lemma tcp_out_adjust_seq_ack:
  "tcp_out_adjust_seq fw cp tcph m = Some r \<Longrightarrow>
     ntohl (ack_seq (fst r)) = ntohl (ack_seq tcph) - delta (fnat_seq cp)"
  by (auto simp add: tcp_out_adjust_seq_def ip_vs_synproxy_snat_handler_def split: option.splits)

lemma tcp_fnat_in_handler_seq:
  assumes "app cp = None"
    and "fst (tcp_fnat_in_handler ctl fw opc copied mib skb pp cp) = 1"
  shows "ntohl (seq (th (fst (snd (tcp_fnat_in_handler ctl fw opc copied mib skb pp cp))))) =
           ntohl (seq (th skb))
           + delta (fnat_seq (fst (snd (snd (tcp_fnat_in_handler ctl fw opc copied mib skb pp cp)))))"
  using assms
  by (simp add: tcp_fnat_in_handler_def app_pkt_checks_def Let_def tcp_full_csum_fields
        tcp_opt_add_toa_seq tcp_in_adjust_seq_seq split: if_splits)

lemma tcp_save_out_seq_fnat: "fnat_seq (tcp_save_out_seq ctl skb cp tcph ihl) = fnat_seq cp"
  by (simp add: tcp_save_out_seq_def)

lemma tcp_fnat_out_handler_ack:
  assumes "app cp = None"
    and "fst (tcp_fnat_out_handler ctl fw skb pp cp) = 1"
  shows "ntohl (ack_seq (th (fst (snd (tcp_fnat_out_handler ctl fw skb pp cp))))) =
           ntohl (ack_seq (th skb)) - delta (fnat_seq cp)"
  using assms
  by (auto simp add: tcp_fnat_out_handler_def app_pkt_checks_def Let_def tcp_full_csum_fields
        tcp_save_out_seq_fnat split: if_splits option.splits dest!: tcp_out_adjust_seq_ack)

text \<open>
  Claim C6: \<open>tcp_in_adjust_seq\<close> leaves \<open>seq\<close> equal to the incoming \<open>seq\<close> plus the
  flow's FullNAT delta, and \<open>tcp_out_adjust_seq\<close>, whenever the SYN-proxy hook does not
  drop the segment, leaves \<open>ack_seq\<close> equal to the incoming \<open>ack_seq\<close> minus the delta,
  both mod \<open>2^32\<close>. The same holds end to end for the two FullNAT handlers on a flow
  without a helper: the segment \<open>tcp_fnat_in_handler\<close> passes on carries the incoming
  \<open>seq\<close> plus the delta the flow has after the call, and the segment
  \<open>tcp_fnat_out_handler\<close> passes on carries the incoming \<open>ack_seq\<close> minus the delta.
\<close>

theorem fnat_seq_linearity:
  "ntohl (seq (fst (tcp_in_adjust_seq fw cp tcph m))) = ntohl (seq tcph) + delta (fnat_seq cp) \<and>
   (\<forall>r. tcp_out_adjust_seq fw cp tcph m = Some r \<longrightarrow>
        ntohl (ack_seq (fst r)) = ntohl (ack_seq tcph) - delta (fnat_seq cp)) \<and>
   (app cp = None \<and> fst (tcp_fnat_in_handler ctl fw opc copied mib skb pp cp) = 1 \<longrightarrow>
      ntohl (seq (th (fst (snd (tcp_fnat_in_handler ctl fw opc copied mib skb pp cp))))) =
        ntohl (seq (th skb))
        + delta (fnat_seq (fst (snd (snd (tcp_fnat_in_handler ctl fw opc copied mib skb pp cp)))))) \<and>
   (app cp = None \<and> fst (tcp_fnat_out_handler ctl fw skb pp cp) = 1 \<longrightarrow>
      ntohl (ack_seq (th (fst (snd (tcp_fnat_out_handler ctl fw skb pp cp))))) =
        ntohl (ack_seq (th skb)) - delta (fnat_seq cp))"
proof (intro conjI allI impI)
  show "ntohl (seq (fst (tcp_in_adjust_seq fw cp tcph m))) = ntohl (seq tcph) + delta (fnat_seq cp)"
    by (rule tcp_in_adjust_seq_seq)
next
  fix r
  assume "tcp_out_adjust_seq fw cp tcph m = Some r"
  then show "ntohl (ack_seq (fst r)) = ntohl (ack_seq tcph) - delta (fnat_seq cp)"
    by (rule tcp_out_adjust_seq_ack)
next
  assume "app cp = None \<and> fst (tcp_fnat_in_handler ctl fw opc copied mib skb pp cp) = 1"
  then show "ntohl (seq (th (fst (snd (tcp_fnat_in_handler ctl fw opc copied mib skb pp cp))))) =
        ntohl (seq (th skb))
        + delta (fnat_seq (fst (snd (snd (tcp_fnat_in_handler ctl fw opc copied mib skb pp cp)))))"
    by (simp add: tcp_fnat_in_handler_seq)
next
  assume "app cp = None \<and> fst (tcp_fnat_out_handler ctl fw skb pp cp) = 1"
  then show "ntohl (ack_seq (th (fst (snd (tcp_fnat_out_handler ctl fw skb pp cp))))) =
        ntohl (ack_seq (th skb)) - delta (fnat_seq cp)"
    by (simp add: tcp_fnat_out_handler_ack)
qed

text \<open>The theorem on the established flow with delta \<open>0x100\<close>: 100 becomes
  \<open>0x164\<close> on the way in, \<open>0x1200\<close> becomes \<open>0x1100\<close> on the way out.\<close>

theorem fnat_seq_linearity_witness:
  "app cp_est = None \<and>
   fst (tcp_fnat_in_handler sysctl_on fw_zero 200 True (\<lambda>_. 0) skb_seq100 pp_zero cp_est) = 1 \<and>
   ntohl (seq (th (fst (snd (tcp_fnat_in_handler sysctl_on fw_zero 200 True (\<lambda>_. 0) skb_seq100
                               pp_zero cp_est))))) = 100 + 0x100 \<and>
   fst (tcp_fnat_out_handler sysctl_on fw_zero skb_seq100 pp_zero cp_est) = 1 \<and>
   ntohl (ack_seq (th (fst (snd (tcp_fnat_out_handler sysctl_on fw_zero skb_seq100 pp_zero cp_est)))))
     = 0x1200 - 0x100 \<and>
   tcp_out_adjust_seq fw_zero cp_est (th skb_seq100) (data skb_seq100) \<noteq> None"
proof -
  have a: "app cp_est = None" by (simp add: cp_est_def conn_zero_def)
  have i: "fst (tcp_fnat_in_handler sysctl_on fw_zero 200 True (\<lambda>_. 0) skb_seq100 pp_zero cp_est) = 1"
    by (simp add: tcp_fnat_in_handler_def app_pkt_checks_def Let_def cp_est_def conn_zero_def
          fw_zero_def skb_seq100_def skb_zero_def ip_hdrlen_def iphdr_zero_def)
  have o: "fst (tcp_fnat_out_handler sysctl_on fw_zero skb_seq100 pp_zero cp_est) = 1"
    by (simp add: tcp_fnat_out_handler_def app_pkt_checks_def Let_def cp_est_def conn_zero_def
          fw_zero_def skb_seq100_def skb_zero_def ip_hdrlen_def iphdr_zero_def
          tcp_out_adjust_seq_def ip_vs_synproxy_snat_handler_def split: option.splits prod.splits)
  have d: "delta (fnat_seq (fst (snd (snd (tcp_fnat_in_handler sysctl_on fw_zero 200 True (\<lambda>_. 0)
              skb_seq100 pp_zero cp_est))))) = 0x100"
    by (simp add: tcp_fnat_in_handler_def app_pkt_checks_def Let_def cp_est_def conn_zero_def
          fw_zero_def skb_seq100_def skb_zero_def ip_hdrlen_def iphdr_zero_def tcphdr_zero_def
          tcp_opt_add_toa_def sysctl_on_def)
  have n: "tcp_out_adjust_seq fw_zero cp_est (th skb_seq100) (data skb_seq100) \<noteq> None"
    by (simp add: tcp_out_adjust_seq_def ip_vs_synproxy_snat_handler_def fw_zero_def)
  have s: "seq (th skb_seq100) = htonl 100" "ack_seq (th skb_seq100) = htonl 0x1200"
    by (simp_all add: skb_seq100_def)
  have e: "delta (fnat_seq cp_est) = 0x100" by (simp add: cp_est_def)
  show ?thesis
    using a i o n
      fnat_seq_linearity [of fw_zero cp_est "th skb_seq100" "data skb_seq100" sysctl_on 200 True
         "\<lambda>_. 0" skb_seq100 pp_zero]
    by (simp add: d s e)
qed

subsection \<open>Checksums of a synthesised reset\<close>

lemma fold_step_mod:
  fixes n :: nat
  shows "(n mod 65536 + n div 65536) mod 65535 = n mod 65535"
proof -
  have "n = 65536 * (n div 65536) + n mod 65536" by simp
  then have "n = (n mod 65536 + n div 65536) + 65535 * (n div 65536)" by linarith
  then have "n mod 65535 = ((n mod 65536 + n div 65536) + 65535 * (n div 65536)) mod 65535"
    by simp
  also have "\<dots> = (n mod 65536 + n div 65536) mod 65535"
    by (rule mod_mult_self2)
  finally show ?thesis by simp
qed

lemma wsum_fold_le: "wsum_fold n \<le> 65535"
proof (induction n rule: wsum_fold.induct)
  case (1 n)
  then show ?case by (subst wsum_fold.simps) auto
qed

lemma wsum_fold_mod: "wsum_fold n mod 65535 = n mod 65535"
proof (induction n rule: wsum_fold.induct)
  case (1 n)
  show ?case
  proof (cases "n < 65536")
    case True
    then show ?thesis by (subst wsum_fold.simps) simp
  next
    case False
    with 1 show ?thesis by (subst wsum_fold.simps) (simp add: fold_step_mod)
  qed
qed

lemma wsum_fold_pos: "0 < n \<Longrightarrow> 0 < wsum_fold n"
proof (induction n rule: wsum_fold.induct)
  case (1 n)
  show ?case
  proof (cases "n < 65536")
    case True
    with 1 show ?thesis by (subst wsum_fold.simps) simp
  next
    case False
    then have "1 \<le> n div 65536" by (simp add: Suc_le_eq div_greater_zero_iff)
    then have "0 < n mod 65536 + n div 65536" by linarith
    with 1 False show ?thesis by (subst wsum_fold.simps) simp
  qed
qed

lemma wsum_fold_full:
  assumes "0 < n" "n mod 65535 = 0"
  shows "wsum_fold n = 65535"
proof -
  have "wsum_fold n mod 65535 = 0" using assms(2) by (simp add: wsum_fold_mod)
  then have "65535 dvd wsum_fold n" by (simp add: dvd_eq_mod_eq_0)
  then obtain k where k: "wsum_fold n = 65535 * k" by (rule dvdE)
  have b: "0 < wsum_fold n" using assms(1) by (rule wsum_fold_pos)
  have c: "wsum_fold n \<le> 65535" by (rule wsum_fold_le)
  from k b have "0 < k" by simp
  moreover from k c have "k \<le> 1" by simp
  ultimately have "k = 1" by simp
  with k show ?thesis by simp
qed

lemma wsum_fold_0: "wsum_fold 0 = 0"
  by (subst wsum_fold.simps) simp

lemma unat_csum_fold: "unat (csum_fold s) = 65535 - wsum_fold s"
  by (simp add: csum_fold_def unat_of_nat)

lemma csum_fold_verify: "csum_fold (s + unat (csum_fold s)) = 0"
proof -
  let ?f = "wsum_fold s"
  let ?c = "65535 - ?f"
  have le: "?f \<le> 65535" by (rule wsum_fold_le)
  have "(s + ?c) mod 65535 = (s mod 65535 + ?c) mod 65535"
    by (simp add: mod_add_left_eq)
  also have "\<dots> = (?f mod 65535 + ?c) mod 65535"
    by (simp add: wsum_fold_mod)
  also have "\<dots> = (?f + ?c) mod 65535"
    by (simp add: mod_add_left_eq)
  also have "\<dots> = 0"
    using le by simp
  finally have m: "(s + ?c) mod 65535 = 0" .
  have p: "0 < s + ?c"
  proof (cases "s = 0")
    case True
    then show ?thesis by (simp add: wsum_fold_0)
  next
    case False
    then show ?thesis by simp
  qed
  have "wsum_fold (s + ?c) = 65535"
    using p m by (rule wsum_fold_full)
  then show ?thesis
    by (simp add: unat_csum_fold) (simp add: csum_fold_def)
qed

lemma le16_sum: "unat (ucast w :: u8) + 256 * unat (ucast (drop_bit 8 w) :: u8) = unat (w :: u16)"
proof -
  have a: "unat (ucast w :: u8) = unat w mod 256"
    by (simp add: unsigned_ucast_eq take_bit_eq_mod)
  have lt: "unat w < 65536" using unsigned_less [of w, where ?'a = nat] by simp
  have "unat (drop_bit 8 w) = drop_bit 8 (unat w)" by (rule unat_drop_bit_eq)
  also have "\<dots> = unat w div 256" by (simp add: drop_bit_eq_div)
  finally have d: "unat (drop_bit 8 w) = unat w div 256" .
  have "unat (ucast (drop_bit 8 w) :: u8) = unat (drop_bit 8 w) mod 256"
    by (simp only: unsigned_ucast_eq take_bit_eq_mod) simp
  also have "\<dots> = unat w div 256"
    using lt by (simp only: d) simp
  finally have b: "unat (ucast (drop_bit 8 w) :: u8) = unat w div 256" .
  show ?thesis unfolding a b by simp
qed

lemma csum_partial_tcphdr_check:
  "csum_partial (tcphdr_bytes (t\<lparr>check := c\<rparr>)) = csum_partial (tcphdr_bytes (t\<lparr>check := 0\<rparr>)) + unat c"
  using le16_sum [of c]
  by (simp add: tcphdr_bytes_def le16_bytes_def le32_bytes_def tcp_flag_byte_def)

lemma csum_partial_iphdr_check:
  "csum_partial (iphdr_bytes (h\<lparr>ip_check := c\<rparr>)) = csum_partial (iphdr_bytes (h\<lparr>ip_check := 0\<rparr>)) + unat c"
  using le16_sum [of c]
  by (simp add: iphdr_bytes_def le16_bytes_def le32_bytes_def)

lemma length_iphdr_bytes: "length (iphdr_bytes h) = 20"
  by (simp add: iphdr_bytes_def le16_bytes_def le32_bytes_def)

lemma length_tcphdr_bytes: "length (tcphdr_bytes t) = 20"
  by (simp add: tcphdr_bytes_def le16_bytes_def le32_bytes_def)

lemma ip_fast_csum_ihl5:
  "ip_ihl h = 5 \<Longrightarrow> ip_fast_csum h opts = csum_fold (csum_partial (iphdr_bytes h))"
  by (simp add: ip_fast_csum_def length_iphdr_bytes)

lemma ip_send_check_valid:
  assumes "ip_ihl h = 5"
  shows "ip_fast_csum (ip_send_check h opts) opts = 0"
proof -
  let ?s = "csum_partial (iphdr_bytes (h\<lparr>ip_check := 0\<rparr>))"
  have c: "ip_send_check h opts = h\<lparr>ip_check := csum_fold ?s\<rparr>"
    using assms by (simp add: ip_send_check_def ip_fast_csum_ihl5)
  have "ip_fast_csum (h\<lparr>ip_check := csum_fold ?s\<rparr>) opts
          = csum_fold (csum_partial (iphdr_bytes (h\<lparr>ip_check := csum_fold ?s\<rparr>)))"
    using assms by (simp add: ip_fast_csum_ihl5)
  also have "\<dots> = csum_fold (?s + unat (csum_fold ?s))"
    by (subst csum_partial_iphdr_check) (rule refl)
  also have "\<dots> = 0" by (rule csum_fold_verify)
  finally show ?thesis by (simp only: c)
qed


lemma skb_checksum_hdr: "skb_checksum skb 20 = csum_partial (tcphdr_bytes (th skb))"
  by (simp add: skb_checksum_def length_tcphdr_bytes)

lemma csum_tcpudp_magic_verify:
  "csum_tcpudp_magic sa da l p (s + unat (csum_tcpudp_magic sa da l p s)) = 0"
proof -
  define t where "t = s + unat sa + unat da + (unat l + unat p) * 256"
  have a: "csum_tcpudp_magic sa da l p s = csum_fold t"
    by (simp add: csum_tcpudp_magic_def t_def)
  have "s + unat (csum_fold t) + unat sa + unat da + (unat l + unat p) * 256 = t + unat (csum_fold t)"
    by (simp add: t_def)
  then have "csum_tcpudp_magic sa da l p (s + unat (csum_fold t)) = csum_fold (t + unat (csum_fold t))"
    by (simp only: csum_tcpudp_magic_def)
  also have "\<dots> = 0" by (rule csum_fold_verify)
  finally show ?thesis by (simp only: a)
qed

lemma rst_build_v4_fields:
  "rst (th (rst_build_v4 skb tcph sa da)) = rst tcph \<and>
   ack_seq (th (rst_build_v4 skb tcph sa da)) = ack_seq tcph \<and>
   doff (th (rst_build_v4 skb tcph sa da)) = doff tcph \<and>
   seq (th (rst_build_v4 skb tcph sa da)) = seq tcph \<and>
   ip_saddr (iph (rst_build_v4 skb tcph sa da)) = sa \<and>
   ip_daddr (iph (rst_build_v4 skb tcph sa da)) = da \<and>
   len (rst_build_v4 skb tcph sa da) = len skb + 20"
  by (simp add: rst_build_v4_def Let_def skb_push_def ip_send_check_def)

lemma rst_build_v4_ports:
  "source (th (rst_build_v4 skb tcph sa da)) = source tcph \<and>
   dest (th (rst_build_v4 skb tcph sa da)) = dest tcph"
  by (simp add: rst_build_v4_def Let_def)

lemma rst_build_v4_ip_csum:
  "ip_fast_csum (iph (rst_build_v4 skb tcph sa da)) (ip_options (rst_build_v4 skb tcph sa da)) = 0"
proof -
  let ?h = "(iph skb)\<lparr>ip_version := 4, ip_ihl := 5, ip_tot_len := htons (ucast (len skb + 20)),
                             ip_frag_off := htons IP_DF, ip_ttl := IPDEFTTL,
                             ip_protocol := IPPROTO_TCP, ip_saddr := sa, ip_daddr := da\<rparr>"
  have i: "iph (rst_build_v4 skb tcph sa da) = ip_send_check ?h (ip_options skb)"
    by (simp add: rst_build_v4_def Let_def skb_push_def)
  have o: "ip_options (rst_build_v4 skb tcph sa da) = ip_options skb"
    by (simp add: rst_build_v4_def Let_def skb_push_def)
  have "ip_ihl ?h = 5" by simp
  then have "ip_fast_csum (ip_send_check ?h (ip_options skb)) (ip_options skb) = 0"
    by (rule ip_send_check_valid)
  then show ?thesis by (simp only: i o)
qed

lemma rst_build_v4_tcp_csum:
  assumes l: "len skb = 20" and s: "ip_summed skb = CHECKSUM_NONE"
  shows "fst (tcp_csum_check AF_INET (rst_build_v4 skb tcph sa da))"
proof -
  let ?r = "rst_build_v4 skb tcph sa da"
  let ?s0 = "csum_partial (tcphdr_bytes (tcph\<lparr>check := 0\<rparr>))"
  let ?c = "csum_tcpudp_magic sa da 20 6 ?s0"
  have hl: "ip_hdrlen ?r = 20"
    by (simp add: rst_build_v4_def Let_def skb_push_def ip_send_check_def ip_hdrlen_def)
  have ln: "len ?r = 40"
    using l by (simp add: rst_build_v4_def Let_def skb_push_def)
  have su: "ip_summed ?r = CHECKSUM_NONE"
    using s by (simp add: rst_build_v4_def Let_def skb_push_def)
  have ad: "ip_saddr (iph ?r) = sa" "ip_daddr (iph ?r) = da" "ip_protocol (iph ?r) = 6"
    by (simp_all add: rst_build_v4_def Let_def skb_push_def ip_send_check_def IPPROTO_TCP_def)
  have t: "th ?r = tcph\<lparr>check := ?c\<rparr>"
    using l by (simp add: rst_build_v4_def Let_def skb_push_def skb_checksum_hdr IPPROTO_TCP_def
                  ip_send_check_def)
  have "skb_checksum ?r 20 = csum_partial (tcphdr_bytes (tcph\<lparr>check := ?c\<rparr>))"
    by (simp only: skb_checksum_hdr t)
  also have "\<dots> = ?s0 + unat ?c"
    by (subst csum_partial_tcphdr_check) (rule refl)
  finally have sum: "skb_checksum ?r 20 = ?s0 + unat ?c" .
  have "csum_tcpudp_magic sa da 20 6 (?s0 + unat ?c) = 0"
    by (rule csum_tcpudp_magic_verify)
  then show ?thesis
    by (simp add: tcp_csum_check_def Let_def hl ln su ad sum)
qed

lemma tcp_send_rst_in_None:
  "tcp_send_rst_in (Some a) cp = None \<longleftrightarrow>
     \<not> (state cp = IP_VS_TCP_S_SYN_SENT \<and> ack_skb cp \<noteq> [] \<or> state cp = IP_VS_TCP_S_ESTABLISHED)"
  by (simp add: tcp_send_rst_in_def Let_def)

lemma tcp_send_rst_out_None:
  "tcp_send_rst_out (Some b) cp = None \<longleftrightarrow>
     \<not> (state cp = IP_VS_TCP_S_SYN_SENT \<and> ack_skb cp \<noteq> [] \<or> state cp = IP_VS_TCP_S_ESTABLISHED)"
  by (simp add: tcp_send_rst_out_def Let_def)

lemma fresh_skb_len: "len ((skb_push (alloc_skb raw) 20)\<lparr>csum := 0\<rparr>) = 20"
  by (simp add: skb_push_def alloc_skb_def)

lemma fresh_skb_summed: "ip_summed ((skb_push (alloc_skb raw) 20)\<lparr>csum := 0\<rparr>) = CHECKSUM_NONE"
  by (simp add: skb_push_def alloc_skb_def)

lemma rst_build_v4_ok:
  assumes "rst tcph" "ack_seq tcph = 0" "doff tcph = 5"
  shows "rst (th (rst_build_v4 ((skb_push (alloc_skb raw) 20)\<lparr>csum := 0\<rparr>) tcph sa da)) \<and>
         ack_seq (th (rst_build_v4 ((skb_push (alloc_skb raw) 20)\<lparr>csum := 0\<rparr>) tcph sa da)) = 0 \<and>
         doff (th (rst_build_v4 ((skb_push (alloc_skb raw) 20)\<lparr>csum := 0\<rparr>) tcph sa da)) = 5 \<and>
         ip_fast_csum (iph (rst_build_v4 ((skb_push (alloc_skb raw) 20)\<lparr>csum := 0\<rparr>) tcph sa da))
           (ip_options (rst_build_v4 ((skb_push (alloc_skb raw) 20)\<lparr>csum := 0\<rparr>) tcph sa da)) = 0 \<and>
         fst (tcp_csum_check AF_INET (rst_build_v4 ((skb_push (alloc_skb raw) 20)\<lparr>csum := 0\<rparr>) tcph sa da))"
  using assms rst_build_v4_fields [of "(skb_push (alloc_skb raw) 20)\<lparr>csum := 0\<rparr>" tcph sa da]
    rst_build_v4_ip_csum [of "(skb_push (alloc_skb raw) 20)\<lparr>csum := 0\<rparr>" tcph sa da]
    rst_build_v4_tcp_csum [OF fresh_skb_len fresh_skb_summed, of raw tcph sa da]
  by simp

lemma tcp_send_rst_in_v4:
  assumes "af cp = AF_INET" "tcp_send_rst_in fresh cp = Some x"
  shows "rst_wellformed (snd x)"
proof (cases fresh)
  case None
  with assms(2) show ?thesis by (simp add: tcp_send_rst_in_def)
next
  case (Some raw)
  show ?thesis
    using assms Some
    unfolding rst_wellformed_def
    by (auto simp add: tcp_send_rst_in_def Let_def split: if_splits intro!: rst_build_v4_ok [THEN conjunct1]
          rst_build_v4_ok [THEN conjunct2, THEN conjunct1]
          rst_build_v4_ok [THEN conjunct2, THEN conjunct2, THEN conjunct1]
          rst_build_v4_ok [THEN conjunct2, THEN conjunct2, THEN conjunct2, THEN conjunct1]
          rst_build_v4_ok [THEN conjunct2, THEN conjunct2, THEN conjunct2, THEN conjunct2])
qed

lemma tcp_send_rst_out_v4:
  assumes "af cp = AF_INET" "tcp_send_rst_out fresh cp = Some x"
  shows "rst_wellformed (snd x)"
proof (cases fresh)
  case None
  with assms(2) show ?thesis by (simp add: tcp_send_rst_out_def)
next
  case (Some raw)
  show ?thesis
    using assms Some
    unfolding rst_wellformed_def
    by (auto simp add: tcp_send_rst_out_def Let_def split: if_splits intro!: rst_build_v4_ok [THEN conjunct1]
          rst_build_v4_ok [THEN conjunct2, THEN conjunct1]
          rst_build_v4_ok [THEN conjunct2, THEN conjunct2, THEN conjunct1]
          rst_build_v4_ok [THEN conjunct2, THEN conjunct2, THEN conjunct2, THEN conjunct1]
          rst_build_v4_ok [THEN conjunct2, THEN conjunct2, THEN conjunct2, THEN conjunct2])
qed

lemma tcp_send_rst_in_xmit:
  assumes "tcp_send_rst_in fresh cp = Some x"
  shows "fresh \<noteq> None \<and> fst x = PACKET_XMIT \<and>
         (af cp = AF_INET \<longrightarrow>
            source (th (snd x)) = cport cp \<and> dest (th (snd x)) = vport cp \<and>
            ip_saddr (iph (snd x)) = ip (caddr cp) \<and> ip_daddr (iph (snd x)) = ip (vaddr cp))"
proof (cases fresh)
  case None
  with assms show ?thesis by (simp add: tcp_send_rst_in_def)
next
  case (Some raw)
  show ?thesis
    using assms Some
    by (auto simp add: tcp_send_rst_in_def Let_def rst_build_v4_fields rst_build_v4_ports
          split: if_splits)
qed

lemma tcp_send_rst_out_xmit:
  assumes "tcp_send_rst_out fresh cp = Some x"
  shows "fresh \<noteq> None \<and> fst x \<noteq> PACKET_XMIT \<and>
         (af cp = AF_INET \<longrightarrow>
            source (th (snd x)) = dport cp \<and>
            dest (th (snd x)) = (if fwd_method cp AND IP_VS_CONN_F_FULLNAT \<noteq> 0
                                 then lport cp else cport cp) \<and>
            ip_saddr (iph (snd x)) = ip (daddr cp) \<and> ip_daddr (iph (snd x)) = ip (laddr cp))"
proof (cases fresh)
  case None
  with assms show ?thesis by (simp add: tcp_send_rst_out_def)
next
  case (Some raw)
  show ?thesis
    using assms Some
    by (auto simp add: tcp_send_rst_out_def Let_def rst_build_v4_fields rst_build_v4_ports
          split: if_splits)
qed

lemma expire_handler_cases:
  "tcp_conn_expire_handler ctl fresh_in fresh_out cp
     = (case tcp_send_rst_in fresh_in cp of None \<Rightarrow> [] | Some x \<Rightarrow> [x])
       @ (case tcp_send_rst_out fresh_out cp of None \<Rightarrow> [] | Some x \<Rightarrow> [x]) \<or>
   tcp_conn_expire_handler ctl fresh_in fresh_out cp = []"
  by (simp add: tcp_conn_expire_handler_def)

lemma expire_handler_in_part:
  "filter (\<lambda>x. fst x = PACKET_XMIT) (tcp_conn_expire_handler ctl fresh_in fresh_out cp)
     = (if sysctl_ip_vs_conn_expire_tcp_rst ctl \<noteq> 0
           \<and> fwd_method cp AND (IP_VS_CONN_F_FULLNAT OR IP_VS_CONN_F_MASQ) \<noteq> 0
        then (case tcp_send_rst_in fresh_in cp of None \<Rightarrow> [] | Some x \<Rightarrow> [x]) else [])"
  by (auto simp add: tcp_conn_expire_handler_def split: option.splits
        dest: tcp_send_rst_in_xmit tcp_send_rst_out_xmit)

lemma expire_handler_out_part:
  "filter (\<lambda>x. fst x \<noteq> PACKET_XMIT) (tcp_conn_expire_handler ctl fresh_in fresh_out cp)
     = (if sysctl_ip_vs_conn_expire_tcp_rst ctl \<noteq> 0
           \<and> fwd_method cp AND (IP_VS_CONN_F_FULLNAT OR IP_VS_CONN_F_MASQ) \<noteq> 0
        then (case tcp_send_rst_out fresh_out cp of None \<Rightarrow> [] | Some x \<Rightarrow> [x]) else [])"
  by (auto simp add: tcp_conn_expire_handler_def split: option.splits
        dest: tcp_send_rst_in_xmit tcp_send_rst_out_xmit)

lemma fullnat_passes_guard:
  "IP_VS_CONN_F_FULLNAT AND (IP_VS_CONN_F_FULLNAT OR IP_VS_CONN_F_MASQ) \<noteq> 0"
  by (simp add: IP_VS_CONN_F_FULLNAT_def IP_VS_CONN_F_MASQ_def)

text \<open>A flow whose forwarding method is \<open>IP_VS_CONN_F_MASQ\<close>, the zero of the field,
  does not pass the guard of the expiry handler.\<close>

lemma masq_fails_guard:
  "tcp_conn_expire_handler ctl fresh_in fresh_out (cp\<lparr>fwd_method := IP_VS_CONN_F_MASQ\<rparr>) = []"
  by (simp add: tcp_conn_expire_handler_def IP_VS_CONN_F_MASQ_def)

text \<open>
  Claim C5, as the code has it. The segments the expiry handler hands to the transmit
  routines are tagged with the routine: \<open>PACKET_XMIT\<close> carries the reset to the real
  server, every other tag the reset to the client. The handler hands over zero, one or
  two segments, at most one per direction, and a direction whose buffer allocation
  fails sends nothing; when both allocations succeed or both fail it hands over exactly
  zero or exactly two. On a FullNAT flow with the switch on and a state that has a
  sequence number to send (\<open>ESTABLISHED\<close>, or \<open>SYN_SENT\<close> with a queued ACK), each
  direction sends exactly when its allocation succeeds. On an IPv4 flow every segment
  handed over has \<open>rst = 1\<close>, \<open>ack_seq = 0\<close>, \<open>doff = 5\<close>, an IP header checksum that
  verifies and a TCP checksum that \<open>tcp_csum_check\<close> accepts, and it carries the ports
  and addresses of its direction.
\<close>

theorem tcp_conn_expire_handler_rst:
  "length (tcp_conn_expire_handler ctl fresh_in fresh_out cp) \<le> 2 \<and>
   ((fresh_in = None \<longleftrightarrow> fresh_out = None) \<longrightarrow>
      length (tcp_conn_expire_handler ctl fresh_in fresh_out cp) = 0 \<or>
      length (tcp_conn_expire_handler ctl fresh_in fresh_out cp) = 2) \<and>
   (af cp = AF_INET \<longrightarrow>
      (\<forall>x \<in> set (tcp_conn_expire_handler ctl fresh_in fresh_out cp).
         rst (th (snd x)) \<and> ack_seq (th (snd x)) = 0 \<and> doff (th (snd x)) = 5 \<and>
         ip_fast_csum (iph (snd x)) (ip_options (snd x)) = 0 \<and>
         fst (tcp_csum_check AF_INET (snd x)))) \<and>
   length (filter (\<lambda>x. fst x = PACKET_XMIT)
             (tcp_conn_expire_handler ctl fresh_in fresh_out cp)) \<le> 1 \<and>
   length (filter (\<lambda>x. fst x \<noteq> PACKET_XMIT)
             (tcp_conn_expire_handler ctl fresh_in fresh_out cp)) \<le> 1 \<and>
   (fresh_in = None \<longrightarrow>
      filter (\<lambda>x. fst x = PACKET_XMIT) (tcp_conn_expire_handler ctl fresh_in fresh_out cp) = []) \<and>
   (fresh_out = None \<longrightarrow>
      filter (\<lambda>x. fst x \<noteq> PACKET_XMIT) (tcp_conn_expire_handler ctl fresh_in fresh_out cp) = []) \<and>
   (sysctl_ip_vs_conn_expire_tcp_rst ctl \<noteq> 0 \<and> fwd_method cp = IP_VS_CONN_F_FULLNAT \<and>
    (state cp = IP_VS_TCP_S_SYN_SENT \<and> ack_skb cp \<noteq> [] \<or> state cp = IP_VS_TCP_S_ESTABLISHED) \<longrightarrow>
      length (filter (\<lambda>x. fst x = PACKET_XMIT)
                (tcp_conn_expire_handler ctl fresh_in fresh_out cp))
        = (if fresh_in = None then 0 else 1) \<and>
      length (filter (\<lambda>x. fst x \<noteq> PACKET_XMIT)
                (tcp_conn_expire_handler ctl fresh_in fresh_out cp))
        = (if fresh_out = None then 0 else 1)) \<and>
   (af cp = AF_INET \<longrightarrow>
      (\<forall>x \<in> set (tcp_conn_expire_handler ctl fresh_in fresh_out cp).
         (fst x = PACKET_XMIT \<longrightarrow>
            source (th (snd x)) = cport cp \<and> dest (th (snd x)) = vport cp \<and>
            ip_saddr (iph (snd x)) = ip (caddr cp) \<and> ip_daddr (iph (snd x)) = ip (vaddr cp)) \<and>
         (fst x \<noteq> PACKET_XMIT \<longrightarrow>
            source (th (snd x)) = dport cp \<and>
            dest (th (snd x)) = (if fwd_method cp AND IP_VS_CONN_F_FULLNAT \<noteq> 0
                                 then lport cp else cport cp) \<and>
            ip_saddr (iph (snd x)) = ip (daddr cp) \<and> ip_daddr (iph (snd x)) = ip (laddr cp))))"
proof -
  let ?out = "tcp_conn_expire_handler ctl fresh_in fresh_out cp"
  have c1: "length ?out \<le> 2"
    by (simp add: tcp_conn_expire_handler_def split: option.splits)
  have c2: "length ?out = 0 \<or> length ?out = 2" if "fresh_in = None \<longleftrightarrow> fresh_out = None"
  proof -
    from that consider "fresh_in = None" "fresh_out = None"
      | a b where "fresh_in = Some a" "fresh_out = Some b"
      by (cases fresh_in; cases fresh_out) auto
    then show ?thesis
    proof cases
      case 1
      then show ?thesis
        by (simp add: tcp_conn_expire_handler_def tcp_send_rst_in_def tcp_send_rst_out_def)
    next
      case 2
      have "tcp_send_rst_in (Some a) cp = None \<longleftrightarrow> tcp_send_rst_out (Some b) cp = None"
        by (simp only: tcp_send_rst_in_None tcp_send_rst_out_None)
      then show ?thesis
        using 2 by (auto simp add: tcp_conn_expire_handler_def split: option.splits)
    qed
  qed
  have mem: "tcp_send_rst_in fresh_in cp = Some x \<or> tcp_send_rst_out fresh_out cp = Some x"
    if "x \<in> set ?out" for x
    using that by (auto simp add: tcp_conn_expire_handler_def split: option.splits if_splits)
  have c3: "rst (th (snd x)) \<and> ack_seq (th (snd x)) = 0 \<and> doff (th (snd x)) = 5 \<and>
         ip_fast_csum (iph (snd x)) (ip_options (snd x)) = 0 \<and>
         fst (tcp_csum_check AF_INET (snd x))"
    if "af cp = AF_INET" "x \<in> set ?out" for x
  proof -
    from mem [OF that(2)] have "rst_wellformed (snd x)"
      using that(1) tcp_send_rst_in_v4 tcp_send_rst_out_v4 by blast
    then show ?thesis by (simp add: rst_wellformed_def)
  qed
  have c4: "length (filter (\<lambda>x. fst x = PACKET_XMIT) ?out) \<le> 1"
    by (simp add: expire_handler_in_part split: option.splits)
  have c5: "length (filter (\<lambda>x. fst x \<noteq> PACKET_XMIT) ?out) \<le> 1"
    by (simp add: expire_handler_out_part split: option.splits)
  have c6: "filter (\<lambda>x. fst x = PACKET_XMIT) ?out = []" if "fresh_in = None"
    using that by (simp add: expire_handler_in_part tcp_send_rst_in_def)
  have c7: "filter (\<lambda>x. fst x \<noteq> PACKET_XMIT) ?out = []" if "fresh_out = None"
    using that by (simp add: expire_handler_out_part tcp_send_rst_out_def)
  have c8: "length (filter (\<lambda>x. fst x = PACKET_XMIT) ?out) = (if fresh_in = None then 0 else 1) \<and>
      length (filter (\<lambda>x. fst x \<noteq> PACKET_XMIT) ?out) = (if fresh_out = None then 0 else 1)"
    if "sysctl_ip_vs_conn_expire_tcp_rst ctl \<noteq> 0 \<and> fwd_method cp = IP_VS_CONN_F_FULLNAT \<and>
        (state cp = IP_VS_TCP_S_SYN_SENT \<and> ack_skb cp \<noteq> [] \<or> state cp = IP_VS_TCP_S_ESTABLISHED)"
  proof -
    from that have g: "sysctl_ip_vs_conn_expire_tcp_rst ctl \<noteq> 0
        \<and> fwd_method cp AND (IP_VS_CONN_F_FULLNAT OR IP_VS_CONN_F_MASQ) \<noteq> 0"
      using fullnat_passes_guard by simp
    from that have s: "state cp = IP_VS_TCP_S_SYN_SENT \<and> ack_skb cp \<noteq> [] \<or>
        state cp = IP_VS_TCP_S_ESTABLISHED" by simp
    have i: "length (case tcp_send_rst_in fresh_in cp of None \<Rightarrow> [] | Some x \<Rightarrow> [x])
        = (if fresh_in = None then 0 else 1)"
    proof (cases fresh_in)
      case None
      then show ?thesis by (simp add: tcp_send_rst_in_def)
    next
      case (Some a)
      with s tcp_send_rst_in_None [of a cp] show ?thesis by (auto split: option.splits)
    qed
    have j: "length (case tcp_send_rst_out fresh_out cp of None \<Rightarrow> [] | Some x \<Rightarrow> [x])
        = (if fresh_out = None then 0 else 1)"
    proof (cases fresh_out)
      case None
      then show ?thesis by (simp add: tcp_send_rst_out_def)
    next
      case (Some b)
      with s tcp_send_rst_out_None [of b cp] show ?thesis by (auto split: option.splits)
    qed
    show ?thesis
      using g i j by (simp only: expire_handler_in_part expire_handler_out_part if_True simp_thms)
  qed
  have c9: "(fst x = PACKET_XMIT \<longrightarrow>
            source (th (snd x)) = cport cp \<and> dest (th (snd x)) = vport cp \<and>
            ip_saddr (iph (snd x)) = ip (caddr cp) \<and> ip_daddr (iph (snd x)) = ip (vaddr cp)) \<and>
         (fst x \<noteq> PACKET_XMIT \<longrightarrow>
            source (th (snd x)) = dport cp \<and>
            dest (th (snd x)) = (if fwd_method cp AND IP_VS_CONN_F_FULLNAT \<noteq> 0
                                 then lport cp else cport cp) \<and>
            ip_saddr (iph (snd x)) = ip (daddr cp) \<and> ip_daddr (iph (snd x)) = ip (laddr cp))"
    if "af cp = AF_INET" "x \<in> set ?out" for x
    using mem [OF that(2)] that(1) tcp_send_rst_in_xmit [of fresh_in cp x]
      tcp_send_rst_out_xmit [of fresh_out cp x]
    by blast
  show ?thesis
    using c1 c2 c3 c4 c5 c6 c7 c8 c9 by blast
qed

text \<open>The theorem on the established IPv4 FullNAT flow with both buffers allocated:
  two well-formed resets, the first for the real server, from the client's port to the
  virtual port, the second for the client, to the local port.\<close>

theorem tcp_conn_expire_handler_rst_witness:
  "af cp_est = AF_INET \<and>
   length (tcp_conn_expire_handler sysctl_on (Some skb_zero) (Some skb_zero) cp_est) = 2 \<and>
   rst_wellformed (snd (tcp_conn_expire_handler sysctl_on (Some skb_zero) (Some skb_zero) cp_est ! 0)) \<and>
   rst_wellformed (snd (tcp_conn_expire_handler sysctl_on (Some skb_zero) (Some skb_zero) cp_est ! 1)) \<and>
   fst (tcp_conn_expire_handler sysctl_on (Some skb_zero) (Some skb_zero) cp_est ! 0) = PACKET_XMIT \<and>
   source (th (snd (tcp_conn_expire_handler sysctl_on (Some skb_zero) (Some skb_zero) cp_est ! 0)))
     = cport cp_est \<and>
   dest (th (snd (tcp_conn_expire_handler sysctl_on (Some skb_zero) (Some skb_zero) cp_est ! 0)))
     = vport cp_est \<and>
   fst (tcp_conn_expire_handler sysctl_on (Some skb_zero) (Some skb_zero) cp_est ! 1)
     = FNAT_RESPONSE_XMIT \<and>
   source (th (snd (tcp_conn_expire_handler sysctl_on (Some skb_zero) (Some skb_zero) cp_est ! 1)))
     = dport cp_est \<and>
   dest (th (snd (tcp_conn_expire_handler sysctl_on (Some skb_zero) (Some skb_zero) cp_est ! 1)))
     = lport cp_est"
proof -
  let ?out = "tcp_conn_expire_handler sysctl_on (Some skb_zero) (Some skb_zero) cp_est"
  have a: "af cp_est = AF_INET" by (simp add: cp_est_def conn_zero_def)
  have f: "fwd_method cp_est AND IP_VS_CONN_F_FULLNAT \<noteq> 0"
    by (simp add: cp_est_def conn_zero_def IP_VS_CONN_F_FULLNAT_def)
  have n: "length ?out = 2"
    by (simp add: tcp_conn_expire_handler_def tcp_send_rst_in_def tcp_send_rst_out_def Let_def
        sysctl_on_def cp_est_def conn_zero_def IP_VS_CONN_F_FULLNAT_def IP_VS_CONN_F_MASQ_def)
  have t: "fst (?out ! 0) = PACKET_XMIT" "fst (?out ! 1) = FNAT_RESPONSE_XMIT"
    by (simp_all add: tcp_conn_expire_handler_def tcp_send_rst_in_def tcp_send_rst_out_def Let_def
        sysctl_on_def cp_est_def conn_zero_def IP_VS_CONN_F_FULLNAT_def IP_VS_CONN_F_MASQ_def)
  have m: "?out ! 0 \<in> set ?out" "?out ! 1 \<in> set ?out"
    using n by simp_all
  note all = tcp_conn_expire_handler_rst [of sysctl_on "Some skb_zero" "Some skb_zero" cp_est,
      THEN conjunct2, THEN conjunct2, THEN conjunct1, rule_format, OF a]
  note dir = tcp_conn_expire_handler_rst [of sysctl_on "Some skb_zero" "Some skb_zero" cp_est,
      THEN conjunct2, THEN conjunct2, THEN conjunct2, THEN conjunct2, THEN conjunct2,
      THEN conjunct2, THEN conjunct2, THEN conjunct2, rule_format, OF a]
  have d0: "source (th (snd (?out ! 0))) = cport cp_est" "dest (th (snd (?out ! 0))) = vport cp_est"
    using dir [OF m(1), THEN conjunct1] t(1) by simp_all
  have d1: "source (th (snd (?out ! 1))) = dport cp_est" "dest (th (snd (?out ! 1))) = lport cp_est"
    using dir [OF m(2), THEN conjunct2] t(2) f by simp_all
  have w: "rst_wellformed (snd (?out ! 0))" "rst_wellformed (snd (?out ! 1))"
    using all [OF m(1)] all [OF m(2)] by (simp_all add: rst_wellformed_def)
  show ?thesis
    by (intro conjI) (rule a n w t d0 d1)+
qed

text \<open>The same flow when the second allocation fails: one segment leaves, the reset
  to the real server.\<close>

theorem expire_rst_single_packet:
  "sysctl_ip_vs_conn_expire_tcp_rst sysctl_on \<noteq> 0 \<and>
   fwd_method cp_est = IP_VS_CONN_F_FULLNAT \<and>
   length (tcp_conn_expire_handler sysctl_on (Some skb_zero) None cp_est) = 1"
  by (simp add: tcp_conn_expire_handler_def tcp_send_rst_in_def tcp_send_rst_out_def Let_def
        sysctl_on_def cp_est_def conn_zero_def IP_VS_CONN_F_FULLNAT_def IP_VS_CONN_F_MASQ_def)

subsection \<open>Insertion of the client-address option\<close>















end
